theory Spec2Isabelle
  imports Complex_Main
begin

section \<open>Exceptions\<close>

text \<open>
  The built-in exceptions that the script or the libraries under it can raise. A subclass
  is identified with the listed class an \<^verbatim>\<open>except\<close> clause would catch it as
  (pandas' ParserError is a \<^verbatim>\<open>ValueError\<close>, PermissionError an \<^verbatim>\<open>OSError\<close>).
\<close>

datatype pyexc =
    TypeError | ValueError | IndexError | KeyError | UnboundLocalError
  | FileNotFoundError | FileExistsError | OSError

text \<open>
  The script's own exception classes carry the offending argument; anything else that
  escapes is a built-in exception.
\<close>

datatype error =
    SiteCodeError string
  | SetTypeError string
  | TemporalResolutionError string
  | Builtin pyexc

section \<open>Strings\<close>

text \<open>\<^verbatim>\<open>s.split(sep)\<close> for a one-character separator: never an empty list.\<close>

fun split_on :: "char \<Rightarrow> string \<Rightarrow> string list" where
  "split_on sep [] = [[]]"
| "split_on sep (c # cs) =
     (if c = sep then [] # split_on sep cs
      else (case split_on sep cs of
              [] \<Rightarrow> [[c]]
            | p # ps \<Rightarrow> (c # p) # ps))"

text \<open>\<^verbatim>\<open>xs[i]\<close> with Python's negative indices; out of range raises IndexError.\<close>

definition py_index :: "'a list \<Rightarrow> int \<Rightarrow> error + 'a" where
  "py_index xs i =
     (if 0 \<le> i \<and> i < int (length xs) then Inr (xs ! nat i)
      else if i < 0 \<and> - i \<le> int (length xs) then Inr (xs ! nat (int (length xs) + i))
      else Inl (Builtin IndexError))"

fun startswith :: "string \<Rightarrow> string \<Rightarrow> bool" where
  "startswith s [] = True"
| "startswith [] (p # ps) = False"
| "startswith (c # cs) (p # ps) = (c = p \<and> startswith cs ps)"

text \<open>\<^verbatim>\<open>sub in s\<close> on strings.\<close>

fun str_contains :: "string \<Rightarrow> string \<Rightarrow> bool" where
  "str_contains sub [] = (sub = [])"
| "str_contains sub (c # cs) = (startswith (c # cs) sub \<or> str_contains sub cs)"

text \<open>
  \<^verbatim>\<open>str.isdigit\<close>: a non-empty string of digit characters. Over the 8-bit characters
  of the model the digits are 0 to 9 and the superscripts two, three and one of Latin-1.
\<close>

definition isdigit_char :: "char \<Rightarrow> bool" where
  "isdigit_char c =
     (c \<in> set ''0123456789'' \<or> c = CHR 0xB2 \<or> c = CHR 0xB3 \<or> c = CHR 0xB9)"

definition isdigit :: "string \<Rightarrow> bool" where
  "isdigit s = (s \<noteq> [] \<and> list_all isdigit_char s)"

text \<open>\<^verbatim>\<open>str(n)\<close> for an integer.\<close>

definition digit_char :: "nat \<Rightarrow> char" where
  "digit_char d = ''0123456789'' ! d"

function str_nat :: "nat \<Rightarrow> string" where
  "str_nat n = (if n < 10 then [digit_char n] else str_nat (n div 10) @ [digit_char (n mod 10)])"
  by pat_completeness auto
termination
  by (relation "measure (\<lambda>n. n)") auto

declare str_nat.simps [simp del]

definition str_int :: "int \<Rightarrow> string" where
  "str_int i = (if i < 0 then CHR ''-'' # str_nat (nat (- i)) else str_nat (nat i))"

text \<open>\<^verbatim>\<open>os.path.basename\<close> and \<^verbatim>\<open>os.path.join\<close> of two parts, as posixpath has them.\<close>

definition basename :: "string \<Rightarrow> string" where
  "basename p = last (split_on CHR ''/'' p)"

definition path_join :: "string \<Rightarrow> string \<Rightarrow> string" where
  "path_join a b =
     (if startswith b ''/'' then b
      else if a = [] \<or> last a = CHR ''/'' then a @ b
      else a @ ''/'' @ b)"

section \<open>Tables\<close>

text \<open>
  A cell of a table read by pandas: an integer, a float, a string, or the missing value.
  Floats are carried, never computed with; only NaN is told apart.
\<close>

datatype cell = IntCell int | FloatCell real | StrCell string | NaN

text \<open>
  A DataFrame: its index (\<open>None\<close> is the default RangeIndex, otherwise the index's name
  and labels) and its columns in order. \<^verbatim>\<open>read_csv\<close> makes column names distinct.
\<close>

record dataframe =
  df_index :: "(string \<times> cell list) option"
  df_columns :: "(string \<times> cell list) list"

definition columns :: "dataframe \<Rightarrow> string list" where
  "columns df = map fst (df_columns df)"

text \<open>\<^verbatim>\<open>df.drop(columns=names, errors='ignore')\<close>.\<close>

definition drop_ignore :: "dataframe \<Rightarrow> string list \<Rightarrow> dataframe" where
  "drop_ignore df names = df\<lparr>df_columns := filter (\<lambda>(n, _). n \<notin> set names) (df_columns df)\<rparr>"

text \<open>\<^verbatim>\<open>df.drop(columns=name)\<close>: a missing label raises KeyError.\<close>

definition drop_column :: "dataframe \<Rightarrow> string \<Rightarrow> error + dataframe" where
  "drop_column df name =
     (if name \<in> set (columns df) then Inr (drop_ignore df [name])
      else Inl (Builtin KeyError))"

text \<open>One row of the variable legend, of the group table, of the flag table, of the site table.\<close>

record legend_row =
  Variable :: string
  Description :: cell
  Units :: cell

record variable_group =
  vg_Variable :: string
  vg_Group :: string

record group_flag =
  GROUP :: string
  FLAG :: int

record site_record =
  lat :: cell
  lon :: cell
  elev :: cell
  country :: cell
  pft :: cell

section \<open>The environment\<close>

text \<open>
  What the script reads from outside itself: the file system, the tables loaded at module
  level (\<open>legend\<close>, \<open>site_info\<close>), the clock, and the library functions whose results
  it only passes on (regular-expression matching, timestamp parsing, the text of a float).
\<close>

record world =
  listdir :: "string \<Rightarrow> pyexc + string list"
  glob :: "string \<Rightarrow> string list"
  read_csv :: "string \<Rightarrow> pyexc + dataframe"
  variable_groups_csv :: "pyexc + variable_group list"
  output_variables_csv :: "pyexc + group_flag list"
  legend :: "legend_row list"
  site_info :: "string \<Rightarrow> site_record option"
  re_match :: "string \<Rightarrow> string \<Rightarrow> bool"
  to_datetime :: "cell list \<Rightarrow> string \<Rightarrow> pyexc + cell list"
  float_repr :: "real \<Rightarrow> string"
  now :: string
  mkdir :: "string \<Rightarrow> pyexc option"
  to_netcdf :: "string \<Rightarrow> pyexc option"

text \<open>The accesses to the file system, in the order they happen.\<close>

datatype event = Listdir string | Glob string | ReadCsv string | Mkdir string | ToNetcdf string

type_synonym 'a io = "(error + 'a) \<times> event list"

text \<open>Sequencing: an exception ends the computation, the events so far are kept.\<close>

definition and_then :: "'a io \<Rightarrow> ('a \<Rightarrow> 'b io) \<Rightarrow> 'b io" where
  "and_then m f =
     (case m of
        (Inl e, t) \<Rightarrow> (Inl e, t)
      | (Inr x, t) \<Rightarrow> (case f x of (r, t') \<Rightarrow> (r, t @ t')))"

definition pure_step :: "error + 'a \<Rightarrow> 'a io" where
  "pure_step r = (r, [])"

definition lift_exc :: "pyexc + 'a \<Rightarrow> error + 'a" where
  "lift_exc r = (case r of Inl x \<Rightarrow> Inl (Builtin x) | Inr v \<Rightarrow> Inr v)"

section \<open>check_date_format\<close>

definition str_cell :: "world \<Rightarrow> cell \<Rightarrow> string" where
  "str_cell w c =
     (case c of
        IntCell i \<Rightarrow> str_int i
      | FloatCell x \<Rightarrow> float_repr w x
      | StrCell s \<Rightarrow> s
      | NaN \<Rightarrow> ''nan'')"

text \<open>
  \<^verbatim>\<open>dframe[time_col_name][0]\<close> raises KeyError for a missing column and for a table
  without rows. No branch assigns \<open>date_format\<close> for a width other than 4, 8 or 12, and
  the \<^verbatim>\<open>return\<close> then raises UnboundLocalError.
\<close>

definition check_date_format :: "world \<Rightarrow> dataframe \<Rightarrow> string \<Rightarrow> error + string" where
  "check_date_format w dframe time_col_name =
     (case map_of (df_columns dframe) time_col_name of
        None \<Rightarrow> Inl (Builtin KeyError)
      | Some [] \<Rightarrow> Inl (Builtin KeyError)
      | Some (c # _) \<Rightarrow>
          (let date_digit_length = length (str_cell w c) in
           if date_digit_length = 4 then Inr ''%Y''
           else if date_digit_length = 8 then Inr ''%Y%m%d''
           else if date_digit_length = 12 then Inr ''%Y%m%d%H%M''
           else Inl (Builtin UnboundLocalError)))"

section \<open>find_flux_file\<close>

text \<open>
  The list comprehensions index the pieces of each file name; a name with too few pieces
  raises IndexError. \<^verbatim>\<open>and\<close> does not evaluate its right side when the left is false.
  \<^verbatim>\<open>raise SiteCodeError\<close> names the class without arguments: Python instantiates it with
  none, and its \<^verbatim>\<open>__init__\<close> requires \<open>site\<close>, so what is raised is a TypeError.
\<close>

fun filter_err :: "('a \<Rightarrow> error + bool) \<Rightarrow> 'a list \<Rightarrow> error + 'a list" where
  "filter_err p [] = Inr []"
| "filter_err p (x # xs) =
     (case p x of
        Inl e \<Rightarrow> Inl e
      | Inr b \<Rightarrow>
          (case filter_err p xs of
             Inl e \<Rightarrow> Inl e
           | Inr ys \<Rightarrow> Inr (if b then x # ys else ys)))"

definition piece_is :: "string \<Rightarrow> int \<Rightarrow> string \<Rightarrow> error + bool" where
  "piece_is file i s =
     (case py_index (split_on CHR ''_'' file) i of Inl e \<Rightarrow> Inl e | Inr p \<Rightarrow> Inr (p = s))"

definition site_and_settype :: "string \<Rightarrow> string \<Rightarrow> string \<Rightarrow> error + bool" where
  "site_and_settype site settype file =
     (case piece_is file 1 site of
        Inl e \<Rightarrow> Inl e
      | Inr False \<Rightarrow> Inr False
      | Inr True \<Rightarrow> piece_is file 3 settype)"

definition find_flux_file :: "world \<Rightarrow> string \<Rightarrow> string \<Rightarrow> string \<Rightarrow> string \<Rightarrow> string io" where
  "find_flux_file w path site temporal_agg settype =
     (if settype \<notin> set [''FULLSET'', ''SUBSET''] then (Inl (SetTypeError settype), [])
      else
        and_then (lift_exc (listdir w path), [Listdir path]) (\<lambda>entries.
          let flux_dir = filter (str_contains site) entries in
          if length flux_dir \<noteq> 1 then (Inl (Builtin TypeError), [])
          else
            let pattern = path @ hd flux_dir @ ''/*.csv'' in
            and_then (Inr (map basename (glob w pattern)), [Glob pattern]) (\<lambda>files.
              pure_step
                (case filter_err (site_and_settype site settype) files of
                   Inl e \<Rightarrow> Inl e
                 | Inr files' \<Rightarrow>
                     (case filter_err (\<lambda>file. piece_is file 4 temporal_agg) files' of
                        Inl e \<Rightarrow> Inl e
                      | Inr fname \<Rightarrow>
                          (case fname of
                             [] \<Rightarrow> Inl (Builtin IndexError)
                           | f # _ \<Rightarrow> Inr (hd flux_dir @ ''/'' @ f)))))))"

section \<open>filter_output\<close>

text \<open>
  The groups flagged with 1, the variables of those groups, the table's columns matched
  by each variable written with \<^verbatim>\<open>#\<close> (the name, with every \<^verbatim>\<open>#\<close> replaced by
  \<^verbatim>\<open>\d\<close>, is compiled as a regular expression and matched at the start of each column
  name), and last the removal of the names containing \<^verbatim>\<open>QC\<close> when the group
  \<^verbatim>\<open>QUALITY FLAGS\<close> is not among the flagged ones.
\<close>

definition replace_hash :: "string \<Rightarrow> string" where
  "replace_hash s = concat (map (\<lambda>c. if c = CHR ''#'' then [CHR 0x5C, CHR ''d''] else [c]) s)"

definition output_groups_of :: "group_flag list \<Rightarrow> string list" where
  "output_groups_of output_variables = map GROUP (filter (\<lambda>r. FLAG r = 1) output_variables)"

definition numbered_variables_of :: "world \<Rightarrow> string list \<Rightarrow> string list \<Rightarrow> string list" where
  "numbered_variables_of w output_variables cols =
     concat (map (\<lambda>numbered_variable. filter (re_match w (replace_hash numbered_variable)) cols)
                 (filter (str_contains ''#'') output_variables))"

definition allowed_variables ::
  "world \<Rightarrow> variable_group list \<Rightarrow> group_flag list \<Rightarrow> string list \<Rightarrow> string list" where
  "allowed_variables w variable_groups flags cols =
     (let output_groups = output_groups_of flags;
          output_variables =
            map vg_Variable (filter (\<lambda>r. vg_Group r \<in> set output_groups) variable_groups);
          output_variables = output_variables @ numbered_variables_of w output_variables cols
      in if ''QUALITY FLAGS'' \<notin> set output_groups
         then filter (\<lambda>v. \<not> str_contains ''QC'' v) output_variables
         else output_variables)"

text \<open>
  \<^verbatim>\<open>df.columns.difference(other)\<close>: the distinct labels of the table that are not in
  \<open>other\<close> (pandas also sorts them; \<^verbatim>\<open>drop\<close> uses them as a set).
\<close>

definition columns_difference :: "string list \<Rightarrow> string list \<Rightarrow> string list" where
  "columns_difference cols other = remdups (filter (\<lambda>c. c \<notin> set other) cols)"

definition filter_output :: "world \<Rightarrow> dataframe \<Rightarrow> dataframe io" where
  "filter_output w df =
     and_then (lift_exc (variable_groups_csv w), [ReadCsv ''doc/variable_groups.csv''])
       (\<lambda>variable_groups.
     and_then (lift_exc (output_variables_csv w), [ReadCsv ''output_variables.csv''])
       (\<lambda>flags.
     pure_step (Inr (drop_ignore df
       (columns_difference (columns df)
          (allowed_variables w variable_groups flags (columns df)))))))"

section \<open>The dataset\<close>

datatype pyval = Cell cell | Str string | Float real | Bool bool

type_synonym attrs = "(string \<times> pyval) list"

datatype var_data = Series "cell list" | Scalar cell

text \<open>
  An xarray Dataset: the index it was built on with the index's attributes, the data
  variables in order, each with its attributes, and the global attributes.
\<close>

record dataset =
  ds_index :: "(string \<times> cell list) option"
  index_attrs :: attrs
  data_vars :: "(string \<times> var_data \<times> attrs) list"
  ds_attrs :: attrs

definition to_xarray :: "dataframe \<Rightarrow> dataset" where
  "to_xarray df =
     \<lparr>ds_index = df_index df, index_attrs = [],
      data_vars = map (\<lambda>(n, xs). (n, Series xs, [])) (df_columns df),
      ds_attrs = []\<rparr>"

text \<open>\<^verbatim>\<open>ds[name].attrs = a\<close>.\<close>

definition set_attrs :: "dataset \<Rightarrow> string \<Rightarrow> attrs \<Rightarrow> dataset" where
  "set_attrs ds name a =
     ds\<lparr>data_vars := map (\<lambda>(n, d, old). if n = name then (n, d, a) else (n, d, old)) (data_vars ds)\<rparr>"

text \<open>\<^verbatim>\<open>ds[name] = c\<close> for a scalar: a new variable, or the old one replaced.\<close>

definition set_item :: "dataset \<Rightarrow> string \<Rightarrow> cell \<Rightarrow> dataset" where
  "set_item ds name c =
     ds\<lparr>data_vars :=
          (if name \<in> set (map fst (data_vars ds))
           then map (\<lambda>(n, d, a). if n = name then (n, Scalar c, []) else (n, d, a)) (data_vars ds)
           else data_vars ds @ [(name, Scalar c, [])])\<rparr>"

definition var_attrs :: "dataset \<Rightarrow> string \<Rightarrow> attrs option" where
  "var_attrs ds name = map_option snd (map_of (data_vars ds) name)"

section \<open>The variable attributes\<close>

text \<open>
  The first branch of the loop body takes the column name itself when the legend lists it;
  the second rewrites a name whose last two pieces are \<^verbatim>\<open>CUT\<close> and digits by cutting
  its last two characters and appending \<^verbatim>\<open>XX\<close>. There is no third branch: \<open>v\<close> then
  keeps the value of the iteration before, or is unbound in the first one.
\<close>

definition resolve_name :: "legend_row list \<Rightarrow> string \<Rightarrow> string option \<Rightarrow> error + string option" where
  "resolve_name lg variable v =
     (if variable \<in> set (map Variable lg) then Inr (Some variable)
      else
        (case py_index (split_on CHR ''_'' variable) (- 2) of
           Inl e \<Rightarrow> Inl e
         | Inr p \<Rightarrow>
             if p = ''CUT'' \<and> isdigit (last (split_on CHR ''_'' variable))
             then Inr (Some (take (length variable - 2) variable @ ''XX''))
             else Inr v))"

text \<open>\<^verbatim>\<open>legend[legend['Variable'] == v].index[0]\<close>, when there is such a row.\<close>

fun first_index :: "legend_row list \<Rightarrow> string \<Rightarrow> nat option" where
  "first_index [] v = None"
| "first_index (r # rs) v = (if Variable r = v then Some 0 else map_option Suc (first_index rs v))"

text \<open>\<^verbatim>\<open>np.isnan\<close> of one value: a string is not a supported input type.\<close>

definition np_isnan :: "cell \<Rightarrow> error + bool" where
  "np_isnan c =
     (case c of
        NaN \<Rightarrow> Inr True
      | StrCell s \<Rightarrow> Inl (Builtin TypeError)
      | IntCell i \<Rightarrow> Inr False
      | FloatCell x \<Rightarrow> Inr False)"

text \<open>The three rows after row \<open>i\<close>, fewer at the end of the table.\<close>

definition unit_block_of :: "legend_row list \<Rightarrow> nat \<Rightarrow> legend_row list" where
  "unit_block_of lg i = take 3 (drop (i + 1) lg)"

definition resolve_unit :: "legend_row list \<Rightarrow> string \<Rightarrow> string \<Rightarrow> error + cell" where
  "resolve_unit lg temporal_agg v =
     (case first_index lg v of
        None \<Rightarrow> Inl (Builtin IndexError)
      | Some i \<Rightarrow>
          (case np_isnan (Units (lg ! i)) of
             Inl e \<Rightarrow> Inl e
           | Inr True \<Rightarrow>
               (case filter (\<lambda>r. Variable r = temporal_agg) (unit_block_of lg i) of
                  [] \<Rightarrow> Inr (StrCell [])
                | r # _ \<Rightarrow> Inr (Units r))
           | Inr False \<Rightarrow> Inr (Units (lg ! i))))"

definition variable_attrs :: "legend_row list \<Rightarrow> string \<Rightarrow> string option \<Rightarrow> error + attrs" where
  "variable_attrs lg temporal_agg v =
     (case v of
        None \<Rightarrow> Inl (Builtin UnboundLocalError)
      | Some name \<Rightarrow>
          (case resolve_unit lg temporal_agg name of
             Inl e \<Rightarrow> Inl e
           | Inr unit \<Rightarrow>
               (case first_index lg name of
                  None \<Rightarrow> Inl (Builtin IndexError)
                | Some i \<Rightarrow>
                    Inr [(''long_name'', Cell (Description (lg ! i))),
                         (''units'', Cell unit),
                         (''_FillValue'', Float (- 9999))])))"

text \<open>The loop over \<^verbatim>\<open>list(ds.data_vars)\<close>, with \<open>v\<close> carried from one iteration to the next.\<close>

fun set_variable_attrs ::
  "legend_row list \<Rightarrow> string \<Rightarrow> string list \<Rightarrow> string option \<Rightarrow> dataset \<Rightarrow> error + dataset" where
  "set_variable_attrs lg temporal_agg [] v ds = Inr ds"
| "set_variable_attrs lg temporal_agg (variable # rest) v ds =
     (case resolve_name lg variable v of
        Inl e \<Rightarrow> Inl e
      | Inr v' \<Rightarrow>
          (case variable_attrs lg temporal_agg v' of
             Inl e \<Rightarrow> Inl e
           | Inr a \<Rightarrow> set_variable_attrs lg temporal_agg rest v' (set_attrs ds variable a)))"

section \<open>flux2netcdf\<close>

text \<open>
  The \<^verbatim>\<open>try\<close> block: reading the station's file and looking the site up in
  \<open>site_info\<close>. Only ValueError and IndexError are caught and turned into a
  SiteCodeError; a site that the table does not list raises KeyError, which passes.
\<close>

definition load_station :: "world \<Rightarrow> string \<Rightarrow> string \<Rightarrow> string \<Rightarrow> (dataframe \<times> site_record) io" where
  "load_station w path fname site =
     (let file = path_join path fname in
      ((case read_csv w file of
          Inl x \<Rightarrow>
            if x = ValueError \<or> x = IndexError then Inl (SiteCodeError site) else Inl (Builtin x)
        | Inr df \<Rightarrow>
            (case site_info w site of
               None \<Rightarrow> Inl (Builtin KeyError)
             | Some metadata \<Rightarrow> Inr (df, metadata))),
       [ReadCsv file]))"

text \<open>
  The time column's name, the parsing of the column with the format that
  \<open>check_date_format\<close> chose, and the column made the index under the name \<^verbatim>\<open>time\<close>.
\<close>

definition time_axis :: "world \<Rightarrow> dataframe \<Rightarrow> string \<Rightarrow> error + dataframe" where
  "time_axis w df temporal_agg =
     (case (if temporal_agg = ''HH''
            then (case drop_column df ''TIMESTAMP_END'' of
                    Inl e \<Rightarrow> Inl e
                  | Inr df' \<Rightarrow> Inr (''TIMESTAMP_START'', df'))
            else Inr (''TIMESTAMP'', df)) of
        Inl e \<Rightarrow> Inl e
      | Inr (time_col_name, df) \<Rightarrow>
          (case check_date_format w df time_col_name of
             Inl e \<Rightarrow> Inl e
           | Inr date_format \<Rightarrow>
               (case map_of (df_columns df) time_col_name of
                  None \<Rightarrow> Inl (Builtin KeyError)
                | Some xs \<Rightarrow>
                    (case lift_exc (to_datetime w xs date_format) of
                       Inl e \<Rightarrow> Inl e
                     | Inr ts \<Rightarrow>
                         Inr \<lparr>df_index = Some (''time'', ts),
                              df_columns =
                                filter (\<lambda>(n, _). n \<noteq> time_col_name) (df_columns df)\<rparr>))))"

definition lon_attrs :: attrs where
  "lon_attrs = [(''standard_name'', Str ''longitude''), (''long_name'', Str ''longitude coordinate''),
                (''units'', Str ''degrees_east''), (''_FillValue'', Bool False)]"

definition lat_attrs :: attrs where
  "lat_attrs = [(''standard_name'', Str ''latitude''), (''long_name'', Str ''latitude coordinate''),
                (''units'', Str ''degrees_north''), (''_FillValue'', Bool False)]"

definition global_attrs ::
  "world \<Rightarrow> site_record \<Rightarrow> string \<Rightarrow> string \<Rightarrow> string \<Rightarrow> string \<Rightarrow> attrs" where
  "global_attrs w metadata path site temporal_agg settype =
     [(''title'', Str (''FLUXNET 2015 Tier 2 '' @ site @ '' '' @ temporal_agg)),
      (''content'', Str (''Flux station '' @ site)),
      (''country'', Cell (country metadata)),
      (''elevation'', Cell (elev metadata)),
      (''longitude'', Cell (lon metadata)),
      (''latitude'', Cell (lat metadata)),
      (''plant_functional_type'', Cell (pft metadata)),
      (''institution'', Str ''https://fluxnet.org''),
      (''source'', Str ''FLUXNET''),
      (''history'', Str (now w @ '' Python 3.9 fluxnetCDF.py main('' @ path @ '', '' @ site
                         @ '', '' @ temporal_agg @ '', '' @ settype)),
      (''contact'', Str ''marco.hannemann@ufz.de''),
      (''comment'', Str (''Data converted from raw .CSV data to netCDF without any ''
                         @ ''further processing steps.''))]"

text \<open>
  The attributes: first the loop over the data variables, then the two scalars
  \<^verbatim>\<open>lon\<close> and \<^verbatim>\<open>lat\<close> with theirs, the time index's and the global ones.
\<close>

definition annotate ::
  "world \<Rightarrow> dataset \<Rightarrow> site_record \<Rightarrow> string \<Rightarrow> string \<Rightarrow> string \<Rightarrow> string \<Rightarrow> error + dataset" where
  "annotate w ds metadata path site temporal_agg settype =
     (case set_variable_attrs (legend w) temporal_agg (map fst (data_vars ds)) None ds of
        Inl e \<Rightarrow> Inl e
      | Inr ds \<Rightarrow>
          (let ds = set_item ds ''lon'' (lon metadata);
               ds = set_item ds ''lat'' (lat metadata);
               ds = set_attrs ds ''lon'' lon_attrs;
               ds = set_attrs ds ''lat'' lat_attrs;
               ds = ds\<lparr>index_attrs := [(''long_name'', Str ''time''), (''_FillValue'', Bool False)]\<rparr>;
               ds = ds\<lparr>ds_attrs := global_attrs w metadata path site temporal_agg settype\<rparr>
           in Inr ds))"

text \<open>The output directory (an existing one is accepted) and the file.\<close>

definition write_netcdf :: "world \<Rightarrow> dataset \<Rightarrow> string \<Rightarrow> string \<Rightarrow> dataset io" where
  "write_netcdf w ds site temporal_agg =
     and_then
       ((case mkdir w ''netcdf'' of
           None \<Rightarrow> Inr ()
         | Some x \<Rightarrow> if x = FileExistsError then Inr () else Inl (Builtin x)),
        [Mkdir ''netcdf''])
       (\<lambda>_. let out = ''netcdf/FLX_'' @ site @ ''_'' @ temporal_agg @ ''.nc'' in
             ((case to_netcdf w out of None \<Rightarrow> Inr ds | Some x \<Rightarrow> Inl (Builtin x)),
              [ToNetcdf out]))"

text \<open>The whole conversion of one station; the result is the dataset that was written.\<close>

definition flux2netcdf :: "world \<Rightarrow> string \<Rightarrow> string \<Rightarrow> string \<Rightarrow> string \<Rightarrow> dataset io" where
  "flux2netcdf w path site temporal_agg settype =
     (if temporal_agg \<notin> set [''HH'', ''DD'', ''WW'', ''YY'']
      then (Inl (TemporalResolutionError temporal_agg), [])
      else
        and_then (find_flux_file w path site temporal_agg settype) (\<lambda>fname.
        and_then (load_station w path fname site) (\<lambda>(df, metadata).
        and_then (pure_step (time_axis w df temporal_agg)) (\<lambda>df.
        and_then (filter_output w df) (\<lambda>df.
        and_then (pure_step (annotate w (to_xarray df) metadata path site temporal_agg settype))
          (\<lambda>ds. write_netcdf w ds site temporal_agg))))))"

section \<open>The unit block of the specification\<close>


section \<open>Concrete inputs\<close>

text \<open>
  Matching at the start of a string for the patterns \<open>filter_output\<close> builds from
  variable names: \<^verbatim>\<open>\d\<close> stands for one decimal digit, any other character for itself.
\<close>

fun match_digits :: "string \<Rightarrow> string \<Rightarrow> bool" where
  "match_digits [] s = True"
| "match_digits [p] s = (case s of [] \<Rightarrow> False | c # cs \<Rightarrow> c = p)"
| "match_digits (p # q # ps) s =
     (case s of
        [] \<Rightarrow> False
      | c # cs \<Rightarrow>
          if p = CHR 0x5C \<and> q = CHR ''d'' then c \<in> set ''0123456789'' \<and> match_digits ps cs
          else c = p \<and> match_digits (q # ps) cs)"

text \<open>
  A legend in the layout of the FLUXNET2015 variable codes: a variable whose unit depends
  on the aggregation has an empty unit and is followed by one row per aggregation.
\<close>

definition example_legend :: "legend_row list" where
  "example_legend =
     [\<lparr>Variable = ''TA_F_MDS'', Description = StrCell ''Air temperature'', Units = NaN\<rparr>,
      \<lparr>Variable = ''HH'', Description = NaN, Units = StrCell ''deg C''\<rparr>,
      \<lparr>Variable = ''DD'', Description = NaN, Units = StrCell ''deg C''\<rparr>,
      \<lparr>Variable = ''NEE_CUT_XX'', Description = StrCell ''Net Ecosystem Exchange'', Units = NaN\<rparr>,
      \<lparr>Variable = ''HH'', Description = NaN, Units = StrCell ''umolCO2 m-2 s-1''\<rparr>,
      \<lparr>Variable = ''DD'', Description = NaN, Units = StrCell ''gC m-2 d-1''\<rparr>,
      \<lparr>Variable = ''WW'', Description = NaN, Units = StrCell ''gC m-2 w-1''\<rparr>,
      \<lparr>Variable = ''MM'', Description = NaN, Units = StrCell ''gC m-2 d-1''\<rparr>,
      \<lparr>Variable = ''YY'', Description = NaN, Units = StrCell ''gC m-2 y-1''\<rparr>,
      \<lparr>Variable = ''TS_F_MDS_#'', Description = StrCell ''Soil temperature'', Units = StrCell ''deg C''\<rparr>]"

text \<open>
  A legend in which the first variable has a single row of its own: the three rows after
  it reach into the rows of the next variable.
\<close>

definition short_block_legend :: "legend_row list" where
  "short_block_legend =
     [\<lparr>Variable = ''NIGHT_D'', Description = StrCell ''Number of nighttime records'', Units = NaN\<rparr>,
      \<lparr>Variable = ''DD'', Description = NaN, Units = StrCell ''nondimensional''\<rparr>,
      \<lparr>Variable = ''NEE_VUT_REF'', Description = StrCell ''Net Ecosystem Exchange'', Units = NaN\<rparr>,
      \<lparr>Variable = ''HH'', Description = NaN, Units = StrCell ''umolCO2 m-2 s-1''\<rparr>,
      \<lparr>Variable = ''DD'', Description = NaN, Units = StrCell ''gC m-2 d-1''\<rparr>,
      \<lparr>Variable = ''WW'', Description = NaN, Units = StrCell ''gC m-2 w-1''\<rparr>]"

definition example_groups :: "variable_group list" where
  "example_groups =
     [\<lparr>vg_Variable = ''TA_F_MDS'', vg_Group = ''MICROMETEOROLOGICAL''\<rparr>,
      \<lparr>vg_Variable = ''TA_F_MDS_QC'', vg_Group = ''MICROMETEOROLOGICAL''\<rparr>,
      \<lparr>vg_Variable = ''TS_F_MDS_#'', vg_Group = ''MICROMETEOROLOGICAL''\<rparr>,
      \<lparr>vg_Variable = ''TS_F_MDS_#_QC'', vg_Group = ''MICROMETEOROLOGICAL''\<rparr>,
      \<lparr>vg_Variable = ''NEE_CUT_50'', vg_Group = ''NET ECOSYSTEM EXCHANGE''\<rparr>,
      \<lparr>vg_Variable = ''LE_F_MDS'', vg_Group = ''ENERGY PROCESSING''\<rparr>]"

definition example_flags :: "group_flag list" where
  "example_flags =
     [\<lparr>GROUP = ''MICROMETEOROLOGICAL'', FLAG = 1\<rparr>,
      \<lparr>GROUP = ''NET ECOSYSTEM EXCHANGE'', FLAG = 1\<rparr>,
      \<lparr>GROUP = ''ENERGY PROCESSING'', FLAG = 0\<rparr>,
      \<lparr>GROUP = ''QUALITY FLAGS'', FLAG = 0\<rparr>]"

definition example_df :: dataframe where
  "example_df =
     \<lparr>df_index = None,
      df_columns =
        [(''TIMESTAMP'', [IntCell 20020101, IntCell 20020102]),
         (''TA_F_MDS'', [FloatCell (- 3), FloatCell 2]),
         (''TA_F_MDS_QC'', [IntCell 0, IntCell 1]),
         (''TS_F_MDS_1'', [FloatCell 5, FloatCell 6]),
         (''TS_F_MDS_1_QC'', [IntCell 0, IntCell 0]),
         (''NEE_CUT_50'', [FloatCell 1, FloatCell 0]),
         (''FOO_UNKNOWN'', [NaN, NaN])]\<rparr>"

text \<open>The table after its time column became the index, and after \<open>filter_output\<close>.\<close>

definition example_indexed :: dataframe where
  "example_indexed =
     \<lparr>df_index = Some (''time'', [IntCell 20020101, IntCell 20020102]),
      df_columns = tl (df_columns example_df)\<rparr>"

definition example_filtered :: dataframe where
  "example_filtered =
     \<lparr>df_index = Some (''time'', [IntCell 20020101, IntCell 20020102]),
      df_columns =
        [(''TA_F_MDS'', [FloatCell (- 3), FloatCell 2]),
         (''TS_F_MDS_1'', [FloatCell 5, FloatCell 6]),
         (''NEE_CUT_50'', [FloatCell 1, FloatCell 0])]\<rparr>"

definition example_site :: site_record where
  "example_site =
     \<lparr>lat = FloatCell 47, lon = FloatCell 11, elev = IntCell 970,
      country = StrCell ''Austria'', pft = StrCell ''GRA''\<rparr>"

definition example_dir :: string where
  "example_dir = ''FLX_AT-Neu_FLUXNET2015_FULLSET_2002-2012_1-4''"

definition example_file :: string where
  "example_file = ''FLX_AT-Neu_FLUXNET2015_FULLSET_DD_2002-2012_1-4.csv''"

text \<open>
  A data directory \<^verbatim>\<open>data/\<close> with one station, its daily and its yearly file. The
  parameter is the directory's listing.
\<close>

definition example_world :: "string list \<Rightarrow> world" where
  "example_world entries =
     \<lparr>listdir = (\<lambda>p. if p = ''data/'' then Inr entries else Inl FileNotFoundError),
      glob = (\<lambda>p. if p = ''data/'' @ example_dir @ ''/*.csv''
                   then [''data/'' @ example_dir @ ''/FLX_AT-Neu_FLUXNET2015_FULLSET_YY_2002-2012_1-4.csv'',
                         ''data/'' @ example_dir @ ''/'' @ example_file]
                   else []),
      read_csv = (\<lambda>p. if p = ''data/'' @ example_dir @ ''/'' @ example_file
                       then Inr example_df else Inl FileNotFoundError),
      variable_groups_csv = Inr example_groups,
      output_variables_csv = Inr example_flags,
      legend = example_legend,
      site_info = (\<lambda>s. if s = ''AT-Neu'' then Some example_site else None),
      re_match = match_digits,
      to_datetime = (\<lambda>xs fmt. Inr xs),
      float_repr = (\<lambda>x. ''0.0''),
      now = ''2021-03-01 12:00:00'',
      mkdir = (\<lambda>p. Some FileExistsError),
      to_netcdf = (\<lambda>p. None)\<rparr>"

text \<open>
  What the conversion of the station writes for the daily aggregation, and its accesses to
  the file system. The column \<^verbatim>\<open>TS_F_MDS_1\<close> carries the description of the
  column before it.
\<close>

definition example_vars :: "(string \<times> var_data \<times> attrs) list" where
  "example_vars =
     [(''TA_F_MDS'', Series [FloatCell (- 3), FloatCell 2],
       [(''long_name'', Cell (StrCell ''Air temperature'')),
        (''units'', Cell (StrCell ''deg C'')),
        (''_FillValue'', Float (- 9999))]),
      (''TS_F_MDS_1'', Series [FloatCell 5, FloatCell 6],
       [(''long_name'', Cell (StrCell ''Air temperature'')),
        (''units'', Cell (StrCell ''deg C'')),
        (''_FillValue'', Float (- 9999))]),
      (''NEE_CUT_50'', Series [FloatCell 1, FloatCell 0],
       [(''long_name'', Cell (StrCell ''Net Ecosystem Exchange'')),
        (''units'', Cell (StrCell ''gC m-2 d-1'')),
        (''_FillValue'', Float (- 9999))]),
      (''lon'', Scalar (FloatCell 11), lon_attrs),
      (''lat'', Scalar (FloatCell 47), lat_attrs)]"

definition example_trace :: "event list" where
  "example_trace =
     [Listdir ''data/'', Glob (''data/'' @ example_dir @ ''/*.csv''),
      ReadCsv (''data/'' @ example_dir @ ''/'' @ example_file),
      ReadCsv ''doc/variable_groups.csv'', ReadCsv ''output_variables.csv'',
      Mkdir ''netcdf'', ToNetcdf ''netcdf/FLX_AT-Neu_DD.nc'']"

text \<open>A table with the given columns, already indexed by time.\<close>

definition example_table :: "string list \<Rightarrow> dataframe" where
  "example_table names =
     \<lparr>df_index = Some (''time'', [IntCell 20020101]),
      df_columns = map (\<lambda>n. (n, [FloatCell 2])) names\<rparr>"

section \<open>Facts about the helper functions\<close>

lemma split_on_nonempty: "split_on sep s \<noteq> []"
  by (induction s) (auto split: list.splits)

lemma split_on_no_sep: "sep \<notin> set s \<Longrightarrow> split_on sep s = [s]"
  by (induction s) auto

lemma split_on_append_sep: "split_on sep (xs @ sep # ys) = split_on sep xs @ split_on sep ys"
  by (induction xs) (auto split: list.splits simp: split_on_nonempty)

lemma isdigit_char_not_underscore: "isdigit_char d \<Longrightarrow> d \<noteq> CHR ''_''"
  by (auto simp: isdigit_char_def)

lemma split_on_cut:
  assumes "isdigit_char d1" and "isdigit_char d2"
  shows "split_on CHR ''_'' (base @ ''_CUT_'' @ [d1, d2])
           = split_on CHR ''_'' base @ [''CUT'', [d1, d2]]"
proof -
  have nd: "CHR ''_'' \<notin> set [d1, d2]"
    using assms by (auto dest: isdigit_char_not_underscore)
  have "base @ ''_CUT_'' @ [d1, d2] = base @ CHR ''_'' # (''CUT'' @ CHR ''_'' # [d1, d2])"
    by simp
  then have "split_on CHR ''_'' (base @ ''_CUT_'' @ [d1, d2])
      = split_on CHR ''_'' base @ split_on CHR ''_'' (''CUT'' @ CHR ''_'' # [d1, d2])"
    by (simp only: split_on_append_sep)
  also have "split_on CHR ''_'' (''CUT'' @ CHR ''_'' # [d1, d2])
      = split_on CHR ''_'' ''CUT'' @ split_on CHR ''_'' [d1, d2]"
    by (rule split_on_append_sep)
  also have "split_on CHR ''_'' ''CUT'' = [''CUT'']"
    by simp
  also have "split_on CHR ''_'' [d1, d2] = [[d1, d2]]"
    using nd by (rule split_on_no_sep)
  finally show ?thesis by simp
qed

lemma py_index_minus2: "py_index (xs @ [a, b]) (- 2) = Inr a"
  by (simp add: py_index_def nth_append)

lemma resolve_name_rewrite:
  assumes "variable \<notin> set (map Variable lg)"
    and "py_index (split_on CHR ''_'' variable) (- 2) = Inr ''CUT''"
    and "isdigit (last (split_on CHR ''_'' variable))"
  shows "resolve_name lg variable v = Inr (Some (take (length variable - 2) variable @ ''XX''))"
  using assms by (simp add: resolve_name_def)

lemma first_index_SomeD:
  "first_index lg v = Some i \<Longrightarrow> i < length lg \<and> Variable (lg ! i) = v"
  by (induction lg arbitrary: i) (auto split: if_splits)

lemma first_index_append:
  "first_index xs v = Some i \<Longrightarrow> first_index (xs @ ys) v = Some i"
  by (induction xs arbitrary: i) (auto split: if_splits)

lemma first_index_take:
  "first_index lg v = Some i \<Longrightarrow> i < n \<Longrightarrow> first_index (take n lg) v = Some i"
proof (induction lg arbitrary: i n)
  case Nil
  then show ?case by simp
next
  case (Cons r rs)
  then show ?case
    by (cases n) (auto split: if_splits)
qed

lemma unit_block_rows:
  assumes "r \<in> set (unit_block_of lg i)"
  shows "\<exists>k. i < k \<and> k \<le> i + 3 \<and> k < length lg \<and> r = lg ! k"
proof -
  from assms obtain n where n: "n < length (unit_block_of lg i)" "unit_block_of lg i ! n = r"
    by (auto simp: in_set_conv_nth)
  then have lt: "n < 3" "i + 1 + n < length lg"
    by (auto simp: unit_block_of_def)
  then have "drop (i + 1) lg ! n = lg ! (i + 1 + n)"
    by (intro nth_drop) simp
  with n lt have "r = lg ! (i + 1 + n)"
    by (simp add: unit_block_of_def)
  with lt show ?thesis
    by (intro exI [of _ "i + 1 + n"]) auto
qed

lemma resolve_unit_block:
  assumes "first_index lg v = Some i" and "Units (lg ! i) = NaN"
  shows "resolve_unit lg temporal_agg v =
           (case filter (\<lambda>r. Variable r = temporal_agg) (unit_block_of lg i) of
              [] \<Rightarrow> Inr (StrCell [])
            | r # _ \<Rightarrow> Inr (Units r))"
  using assms by (simp add: resolve_unit_def np_isnan_def)

lemma filter_first:
  "j < length xs \<Longrightarrow> P (xs ! j) \<Longrightarrow> \<forall>m<j. \<not> P (xs ! m) \<Longrightarrow> \<exists>rest. filter P xs = xs ! j # rest"
proof (induction xs arbitrary: j)
  case Nil
  then show ?case by simp
next
  case (Cons x xs)
  show ?case
  proof (cases j)
    case 0
    with Cons.prems show ?thesis by simp
  next
    case (Suc j')
    with Cons.prems have "\<not> P x" by auto
    moreover from Suc Cons.prems have "j' < length xs" "P (xs ! j')" "\<forall>m<j'. \<not> P (xs ! m)"
      by auto
    ultimately show ?thesis
      using Cons.IH [of j'] Suc by auto
  qed
qed

lemma unit_block_nth:
  assumes "1 \<le> k" and "k \<le> 3" and "i + k < length lg"
  shows "k - 1 < length (unit_block_of lg i) \<and> unit_block_of lg i ! (k - 1) = lg ! (i + k)"
  using assms by (auto simp: unit_block_of_def)



lemma short_block_names:
  "map Variable short_block_legend = [''NIGHT_D'', ''DD'', ''NEE_VUT_REF'', ''HH'', ''DD'', ''WW'']"
  by (simp add: short_block_legend_def)

lemma columns_drop_ignore: "columns (drop_ignore df names) = filter (\<lambda>c. c \<notin> set names) (columns df)"
  by (simp add: columns_def drop_ignore_def filter_map comp_def case_prod_unfold)

lemma set_columns_difference: "set (columns_difference cols other) = set cols - set other"
  by (auto simp: columns_difference_def)

lemma filter_output_reads:
  assumes "variable_groups_csv w = Inr vg" and "output_variables_csv w = Inr flags"
  shows "filter_output w df =
          (Inr (drop_ignore df (columns_difference (columns df) (allowed_variables w vg flags (columns df)))),
           [ReadCsv ''doc/variable_groups.csv'', ReadCsv ''output_variables.csv''])"
  using assms by (simp add: filter_output_def and_then_def lift_exc_def pure_step_def)

lemma allowed_no_QC:
  assumes "''QUALITY FLAGS'' \<notin> set (output_groups_of flags)"
  shows "\<forall>v\<in>set (allowed_variables w vg flags cols). \<not> str_contains ''QC'' v"
  using assms by (auto simp: allowed_variables_def Let_def)

section \<open>Facts about the concrete inputs\<close>

lemma example_world_sel:
  "listdir (example_world es) = (\<lambda>p. if p = ''data/'' then Inr es else Inl FileNotFoundError)"
  "variable_groups_csv (example_world es) = Inr example_groups"
  "output_variables_csv (example_world es) = Inr example_flags"
  "legend (example_world es) = example_legend"
  "site_info (example_world es) = (\<lambda>s. if s = ''AT-Neu'' then Some example_site else None)"
  "re_match (example_world es) = match_digits"
  "to_datetime (example_world es) = (\<lambda>xs fmt. Inr xs)"
  "mkdir (example_world es) = (\<lambda>p. Some FileExistsError)"
  "to_netcdf (example_world es) = (\<lambda>p. None)"
  by (simp_all add: example_world_def)

lemma example_columns:
  "columns example_indexed =
     [''TA_F_MDS'', ''TA_F_MDS_QC'', ''TS_F_MDS_1'', ''TS_F_MDS_1_QC'', ''NEE_CUT_50'', ''FOO_UNKNOWN'']"
  by (simp add: example_indexed_def example_df_def columns_def)

lemma example_output_groups:
  "output_groups_of example_flags = [''MICROMETEOROLOGICAL'', ''NET ECOSYSTEM EXCHANGE'']"
  by (simp add: example_flags_def output_groups_of_def)

lemma example_numbered:
  "numbered_variables_of (example_world es)
     [''TA_F_MDS'', ''TA_F_MDS_QC'', ''TS_F_MDS_#'', ''TS_F_MDS_#_QC'', ''NEE_CUT_50'']
     [''TA_F_MDS'', ''TA_F_MDS_QC'', ''TS_F_MDS_1'', ''TS_F_MDS_1_QC'', ''NEE_CUT_50'', ''FOO_UNKNOWN'']
   = [''TS_F_MDS_1'', ''TS_F_MDS_1_QC'', ''TS_F_MDS_1_QC'']"
  by (simp add: numbered_variables_of_def example_world_sel replace_hash_def)

lemma example_allowed:
  "allowed_variables (example_world es) example_groups example_flags (columns example_indexed)
    = [''TA_F_MDS'', ''TS_F_MDS_#'', ''NEE_CUT_50'', ''TS_F_MDS_1'']"
  by (simp add: allowed_variables_def example_output_groups example_columns example_numbered
      example_groups_def)


lemma example_legend_names:
  "map Variable example_legend =
     [''TA_F_MDS'', ''HH'', ''DD'', ''NEE_CUT_XX'', ''HH'', ''DD'', ''WW'', ''MM'', ''YY'', ''TS_F_MDS_#'']"
  by (simp add: example_legend_def)

lemma str_int_ex1: "str_int 20020101 = ''20020101''"
  by (simp add: str_int_def str_nat.simps digit_char_def)

lemma str_int_ex4: "str_int 200201 = ''200201''"
  by (simp add: str_int_def str_nat.simps digit_char_def)

section \<open>Facts about exceptions and results\<close>

lemma and_then_Inl:
  "fst (and_then m f) = Inl e \<Longrightarrow> fst m = Inl e \<or> (\<exists>y. fst m = Inr y \<and> fst (f y) = Inl e)"
  by (auto simp: and_then_def split: prod.splits sum.splits)

lemma and_then_Inr:
  "fst (and_then m f) = Inr z \<Longrightarrow> \<exists>y. fst m = Inr y \<and> fst (f y) = Inr z"
  by (auto simp: and_then_def split: prod.splits sum.splits)

lemma lift_exc_Inl: "lift_exc r = Inl e \<Longrightarrow> \<exists>b. e = Builtin b"
  by (auto simp: lift_exc_def split: sum.splits)

lemma py_index_Inl: "py_index xs i = Inl e \<Longrightarrow> e = Builtin IndexError"
  by (auto simp: py_index_def split: if_splits)

lemma piece_is_Inl: "piece_is file i s = Inl e \<Longrightarrow> e = Builtin IndexError"
  by (auto simp: piece_is_def split: sum.splits dest: py_index_Inl)

lemma site_and_settype_Inl: "site_and_settype site settype file = Inl e \<Longrightarrow> e = Builtin IndexError"
  by (auto simp: site_and_settype_def split: sum.splits bool.splits dest: piece_is_Inl)

lemma filter_err_Inl: "filter_err p xs = Inl e \<Longrightarrow> \<exists>x\<in>set xs. p x = Inl e"
  by (induction xs) (auto split: sum.splits)

lemma find_flux_file_Inl:
  assumes "fst (find_flux_file w path site temporal_agg settype) = Inl e"
  shows "e = SetTypeError settype \<or> (\<exists>b. e = Builtin b)"
proof (cases "settype \<in> set [''FULLSET'', ''SUBSET'']")
  case False
  with assms show ?thesis by (simp add: find_flux_file_def)
next
  case True
  with assms show ?thesis
    unfolding find_flux_file_def
    by (auto simp: Let_def pure_step_def
        dest!: and_then_Inl lift_exc_Inl filter_err_Inl site_and_settype_Inl piece_is_Inl
        split: if_splits sum.splits list.splits)
qed

lemma load_station_Inl:
  "fst (load_station w path fname site) = Inl e \<Longrightarrow> e = SiteCodeError site \<or> (\<exists>b. e = Builtin b)"
  by (auto simp: load_station_def Let_def split: sum.splits option.splits if_splits)

lemma check_date_format_Inl: "check_date_format w df c = Inl e \<Longrightarrow> \<exists>b. e = Builtin b"
  by (auto simp: check_date_format_def Let_def split: option.splits list.splits if_splits)

lemma drop_column_Inl: "drop_column df c = Inl e \<Longrightarrow> \<exists>b. e = Builtin b"
  by (auto simp: drop_column_def split: if_splits)

lemma time_axis_Inl: "time_axis w df temporal_agg = Inl e \<Longrightarrow> \<exists>b. e = Builtin b"
  unfolding time_axis_def
  by (auto split: sum.splits option.splits if_splits prod.splits
      dest: check_date_format_Inl drop_column_Inl lift_exc_Inl)

lemma filter_output_Inl: "fst (filter_output w df) = Inl e \<Longrightarrow> \<exists>b. e = Builtin b"
  unfolding filter_output_def
  by (auto simp: pure_step_def dest!: and_then_Inl lift_exc_Inl)

lemma resolve_name_Inl: "resolve_name lg variable v = Inl e \<Longrightarrow> \<exists>b. e = Builtin b"
  by (auto simp: resolve_name_def split: if_splits sum.splits dest: py_index_Inl)

lemma resolve_unit_Inl: "resolve_unit lg temporal_agg v = Inl e \<Longrightarrow> \<exists>b. e = Builtin b"
  by (auto simp: resolve_unit_def np_isnan_def split: option.splits sum.splits cell.splits bool.splits list.splits)

lemma variable_attrs_Inl: "variable_attrs lg temporal_agg v = Inl e \<Longrightarrow> \<exists>b. e = Builtin b"
  by (auto simp: variable_attrs_def split: option.splits sum.splits dest: resolve_unit_Inl)

lemma set_variable_attrs_Inl:
  "set_variable_attrs lg temporal_agg names v ds = Inl e \<Longrightarrow> \<exists>b. e = Builtin b"
  by (induction names arbitrary: v ds)
     (auto split: sum.splits dest: resolve_name_Inl variable_attrs_Inl)

lemma annotate_Inl:
  "annotate w ds metadata path site temporal_agg settype = Inl e \<Longrightarrow> \<exists>b. e = Builtin b"
  by (auto simp: annotate_def Let_def split: sum.splits dest: set_variable_attrs_Inl)

lemma write_netcdf_Inl: "fst (write_netcdf w ds site temporal_agg) = Inl e \<Longrightarrow> \<exists>b. e = Builtin b"
  unfolding write_netcdf_def
  by (auto simp: Let_def dest!: and_then_Inl split: option.splits if_splits)

lemma conversion_Inl:
  assumes "temporal_agg \<in> set [''HH'', ''DD'', ''WW'', ''YY'']"
    and "fst (flux2netcdf w path site temporal_agg settype) = Inl e"
  shows "e = SetTypeError settype \<or> e = SiteCodeError site \<or> (\<exists>b. e = Builtin b)"
proof -
  from assms have run: "fst (and_then (find_flux_file w path site temporal_agg settype) (\<lambda>fname.
        and_then (load_station w path fname site) (\<lambda>(df, metadata).
        and_then (pure_step (time_axis w df temporal_agg)) (\<lambda>df.
        and_then (filter_output w df) (\<lambda>df.
        and_then (pure_step (annotate w (to_xarray df) metadata path site temporal_agg settype))
          (\<lambda>ds. write_netcdf w ds site temporal_agg)))))) = Inl e"
    by (simp add: flux2netcdf_def)
  then show ?thesis
    by (auto simp: pure_step_def
        dest!: and_then_Inl find_flux_file_Inl load_station_Inl time_axis_Inl filter_output_Inl
          annotate_Inl write_netcdf_Inl)
qed

section \<open>Facts about the attributes\<close>

lemma variable_attrs_fill:
  "variable_attrs lg temporal_agg v = Inr a \<Longrightarrow> map_of a ''_FillValue'' = Some (Float (- 9999))"
  by (auto simp: variable_attrs_def split: option.splits sum.splits)

lemma names_set_attrs: "map fst (data_vars (set_attrs ds name a)) = map fst (data_vars ds)"
  by (simp add: set_attrs_def case_prod_unfold comp_def)

lemma in_set_attrs:
  assumes "(n, d, b) \<in> set (data_vars (set_attrs ds name a))"
  shows "(n = name \<and> b = a) \<or> (n \<noteq> name \<and> (n, d, b) \<in> set (data_vars ds))"
  using assms by (auto simp: set_attrs_def split: if_splits)

lemma set_variable_attrs_fill:
  assumes "set_variable_attrs lg temporal_agg names v ds = Inr ds'"
    and "\<forall>(n, d, a)\<in>set (data_vars ds). n \<in> S \<longrightarrow> map_of a ''_FillValue'' = Some (Float (- 9999))"
  shows "map fst (data_vars ds') = map fst (data_vars ds)
       \<and> (\<forall>(n, d, a)\<in>set (data_vars ds').
            n \<in> S \<union> set names \<longrightarrow> map_of a ''_FillValue'' = Some (Float (- 9999)))"
  using assms
proof (induction names arbitrary: v ds S)
  case Nil
  then show ?case by simp
next
  case (Cons variable rest)
  from Cons.prems(1) obtain v' a where
    a: "variable_attrs lg temporal_agg v' = Inr a"
    and rest: "set_variable_attrs lg temporal_agg rest v' (set_attrs ds variable a) = Inr ds'"
    by (auto split: sum.splits)
  have inv: "\<forall>(n, d, b)\<in>set (data_vars (set_attrs ds variable a)).
      n \<in> insert variable S \<longrightarrow> map_of b ''_FillValue'' = Some (Float (- 9999))"
    using Cons.prems(2) variable_attrs_fill [OF a] by (auto dest!: in_set_attrs)
  from Cons.IH [OF rest inv] show ?case
    by (simp add: names_set_attrs)
qed

lemma map_of_set_attrs:
  "map_of (map (\<lambda>(n, d, old). if n = name then (n, d, a) else (n, d, old)) xs) k
     = (if k = name then map_option (\<lambda>(d, old). (d, a)) (map_of xs k) else map_of xs k)"
  by (induction xs) auto

lemma var_attrs_set_attrs:
  "var_attrs (set_attrs ds name a) k
     = (if k = name then map_option (\<lambda>_. a) (var_attrs ds k) else var_attrs ds k)"
  by (cases "map_of (data_vars ds) k")
     (auto simp: var_attrs_def set_attrs_def map_of_set_attrs)

lemma map_of_set_item:
  "k \<noteq> name \<Longrightarrow>
   map_of (map (\<lambda>(n, d, a). if n = name then (n, Scalar c, []) else (n, d, a)) xs) k = map_of xs k"
  by (induction xs) auto

lemma var_attrs_set_item: "k \<noteq> name \<Longrightarrow> var_attrs (set_item ds name c) k = var_attrs ds k"
  by (auto simp: var_attrs_def set_item_def map_of_set_item map_add_def split: option.splits)

lemma names_set_item:
  "fst ` set (data_vars (set_item ds name c)) = insert name (fst ` set (data_vars ds))"
  by (auto simp: set_item_def split: if_splits) force+

lemma names_set_attrs_image:
  "fst ` set (data_vars (set_attrs ds name a)) = fst ` set (data_vars ds)"
  using names_set_attrs [of ds name a] by (metis set_map)

lemma var_attrs_defined:
  assumes "k \<in> set (map fst (data_vars ds))"
  shows "\<exists>a. var_attrs ds k = Some a"
proof -
  from assms have "map_of (data_vars ds) k \<noteq> None"
    by (simp add: map_of_eq_None_iff)
  then show ?thesis
    by (auto simp: var_attrs_def)
qed

lemma var_attrs_in_set:
  "var_attrs ds k = Some a \<Longrightarrow> \<exists>d. (k, d, a) \<in> set (data_vars ds)"
  by (auto simp: var_attrs_def dest: map_of_SomeD)

lemma annotate_attrs:
  assumes "annotate w ds0 metadata path site temporal_agg settype = Inr ds"
  shows "(\<forall>name\<in>set (map fst (data_vars ds)). name \<notin> {''lon'', ''lat''} \<longrightarrow>
            (\<exists>a. var_attrs ds name = Some a \<and> map_of a ''_FillValue'' = Some (Float (- 9999))))
       \<and> var_attrs ds ''lon'' = Some lon_attrs
       \<and> var_attrs ds ''lat'' = Some lat_attrs"
proof -
  from assms obtain ds1 where
    loop: "set_variable_attrs (legend w) temporal_agg (map fst (data_vars ds0)) None ds0 = Inr ds1"
    and ds: "data_vars ds = data_vars (set_attrs (set_attrs
               (set_item (set_item ds1 ''lon'' (lon metadata)) ''lat'' (lat metadata))
               ''lon'' lon_attrs) ''lat'' lat_attrs)"
    by (auto simp: annotate_def Let_def set_attrs_def split: sum.splits)
  let ?ds2 = "set_item (set_item ds1 ''lon'' (lon metadata)) ''lat'' (lat metadata)"
  have va: "var_attrs ds k = var_attrs (set_attrs (set_attrs ?ds2 ''lon'' lon_attrs) ''lat'' lat_attrs) k"
    for k
    by (simp add: var_attrs_def ds)
  from set_variable_attrs_fill [OF loop, of "{}"]
  have names: "map fst (data_vars ds1) = map fst (data_vars ds0)"
    and fill: "\<forall>(n, d, a)\<in>set (data_vars ds1).
       n \<in> set (map fst (data_vars ds0)) \<longrightarrow> map_of a ''_FillValue'' = Some (Float (- 9999))"
    by auto
  have nm: "set (map fst (data_vars ds)) = insert ''lat'' (insert ''lon'' (set (map fst (data_vars ds1))))"
    by (simp add: ds names_set_attrs_image names_set_item)
  have lon_in: "''lon'' \<in> set (map fst (data_vars ?ds2))" and lat_in: "''lat'' \<in> set (map fst (data_vars ?ds2))"
    by (simp_all add: names_set_item)
  have "var_attrs ds ''lon'' = Some lon_attrs"
    using var_attrs_defined [OF lon_in] by (auto simp: va var_attrs_set_attrs)
  moreover have "var_attrs ds ''lat'' = Some lat_attrs"
    using var_attrs_defined [OF lat_in] by (auto simp: va var_attrs_set_attrs)
  moreover have "\<exists>a. var_attrs ds name = Some a \<and> map_of a ''_FillValue'' = Some (Float (- 9999))"
    if in_ds: "name \<in> set (map fst (data_vars ds))" and other: "name \<notin> {''lon'', ''lat''}" for name
  proof -
    from in_ds other have in1: "name \<in> set (map fst (data_vars ds1))"
      unfolding nm by auto
    from other have same: "var_attrs ds name = var_attrs ds1 name"
      by (simp add: va var_attrs_set_attrs var_attrs_set_item)
    from var_attrs_defined [OF in1] obtain a where a: "var_attrs ds1 name = Some a"
      by blast
    from var_attrs_in_set [OF a] obtain d where "(name, d, a) \<in> set (data_vars ds1)"
      by blast
    with fill in1 names have "map_of a ''_FillValue'' = Some (Float (- 9999))"
      by auto
    with same a show ?thesis by simp
  qed
  ultimately show ?thesis by blast
qed

lemma write_netcdf_Inr: "fst (write_netcdf w ds site temporal_agg) = Inr ds' \<Longrightarrow> ds' = ds"
  unfolding write_netcdf_def
  by (auto simp: Let_def dest!: and_then_Inr split: option.splits if_splits)

lemma conversion_Inr:
  assumes "fst (flux2netcdf w path site temporal_agg settype) = Inr ds"
  shows "\<exists>df metadata. annotate w (to_xarray df) metadata path site temporal_agg settype = Inr ds"
proof -
  from assms have run: "fst (and_then (find_flux_file w path site temporal_agg settype) (\<lambda>fname.
        and_then (load_station w path fname site) (\<lambda>(df, metadata).
        and_then (pure_step (time_axis w df temporal_agg)) (\<lambda>df.
        and_then (filter_output w df) (\<lambda>df.
        and_then (pure_step (annotate w (to_xarray df) metadata path site temporal_agg settype))
          (\<lambda>ds. write_netcdf w ds site temporal_agg)))))) = Inr ds"
    by (auto simp: flux2netcdf_def split: if_splits)
  then show ?thesis
    by (auto simp: pure_step_def dest!: and_then_Inr write_netcdf_Inr) blast
qed

section \<open>The conversion of the example station\<close>

lemma drop_difference:
  "drop_ignore df (columns_difference (columns df) allowed)
     = df\<lparr>df_columns := filter (\<lambda>(n, _). n \<in> set allowed) (df_columns df)\<rparr>"
proof -
  have "filter (\<lambda>(n, _). n \<notin> set (columns df) - set allowed) (df_columns df)
      = filter (\<lambda>(n, _). n \<in> set allowed) (df_columns df)"
    by (rule filter_cong) (force simp: columns_def)+
  then show ?thesis
    by (simp add: drop_ignore_def set_columns_difference)
qed

lemma example_world_io:
  "glob (example_world es) =
     (\<lambda>p. if p = ''data/'' @ example_dir @ ''/*.csv''
          then [''data/'' @ example_dir @ ''/FLX_AT-Neu_FLUXNET2015_FULLSET_YY_2002-2012_1-4.csv'',
                ''data/'' @ example_dir @ ''/'' @ example_file]
          else [])"
  "read_csv (example_world es) =
     (\<lambda>p. if p = ''data/'' @ example_dir @ ''/'' @ example_file then Inr example_df
          else Inl FileNotFoundError)"
  by (simp_all add: example_world_def)

lemma example_filter:
  "filter_output (example_world es) example_indexed
     = (Inr example_filtered,
        [ReadCsv ''doc/variable_groups.csv'', ReadCsv ''output_variables.csv''])"
  by (simp add: filter_output_reads [OF example_world_sel(2) example_world_sel(3)]
      drop_difference example_allowed)
     (simp add: example_indexed_def example_df_def example_filtered_def)

lemma example_time_axis:
  "time_axis (example_world es) example_df ''DD'' = Inr example_indexed"
  by (simp add: time_axis_def check_date_format_def str_cell_def str_int_ex1 example_world_sel
      lift_exc_def example_df_def example_indexed_def)

lemma example_loop:
  "set_variable_attrs example_legend ''DD'' [''TA_F_MDS'', ''TS_F_MDS_1'', ''NEE_CUT_50''] None
      (to_xarray example_filtered)
     = Inr \<lparr>ds_index = Some (''time'', [IntCell 20020101, IntCell 20020102]), index_attrs = [],
            data_vars =
              [(''TA_F_MDS'', Series [FloatCell (- 3), FloatCell 2],
                [(''long_name'', Cell (StrCell ''Air temperature'')),
                 (''units'', Cell (StrCell ''deg C'')),
                 (''_FillValue'', Float (- 9999))]),
               (''TS_F_MDS_1'', Series [FloatCell 5, FloatCell 6],
                [(''long_name'', Cell (StrCell ''Air temperature'')),
                 (''units'', Cell (StrCell ''deg C'')),
                 (''_FillValue'', Float (- 9999))]),
               (''NEE_CUT_50'', Series [FloatCell 1, FloatCell 0],
                [(''long_name'', Cell (StrCell ''Net Ecosystem Exchange'')),
                 (''units'', Cell (StrCell ''gC m-2 d-1'')),
                 (''_FillValue'', Float (- 9999))])],
            ds_attrs = []\<rparr>"
  by (simp add: resolve_name_def example_legend_names py_index_def isdigit_def isdigit_char_def
      variable_attrs_def resolve_unit_def np_isnan_def unit_block_of_def example_legend_def
      to_xarray_def example_filtered_def set_attrs_def)

lemma example_find:
  "find_flux_file (example_world [example_dir]) ''data/'' ''AT-Neu'' ''DD'' ''FULLSET''
     = (Inr (example_dir @ ''/'' @ example_file),
        [Listdir ''data/'', Glob (''data/'' @ example_dir @ ''/*.csv'')])"
  by (simp add: find_flux_file_def example_world_sel example_world_io and_then_def lift_exc_def
      pure_step_def example_dir_def example_file_def basename_def site_and_settype_def
      piece_is_def py_index_def)

lemma example_load:
  "load_station (example_world es) ''data/'' (example_dir @ ''/'' @ example_file) ''AT-Neu''
     = (Inr (example_df, example_site), [ReadCsv (''data/'' @ example_dir @ ''/'' @ example_file)])"
  by (simp add: load_station_def path_join_def example_world_sel example_world_io example_dir_def
      example_file_def)

lemma and_then_nil: "f x = (r, t') \<Longrightarrow> and_then (Inr x, []) f = (r, t')"
  by (simp add: and_then_def)

lemma and_then_one: "f x = (r, t') \<Longrightarrow> and_then (Inr x, [a]) f = (r, a # t')"
  by (simp add: and_then_def)

lemma and_then_two: "f x = (r, t') \<Longrightarrow> and_then (Inr x, [a, b]) f = (r, a # b # t')"
  by (simp add: and_then_def)

lemma example_names:
  "map fst (data_vars (to_xarray example_filtered)) = [''TA_F_MDS'', ''TS_F_MDS_1'', ''NEE_CUT_50'']"
  by (simp add: to_xarray_def example_filtered_def)

lemma example_annotate:
  "\<exists>ds. annotate (example_world es) (to_xarray example_filtered) example_site ''data/'' ''AT-Neu''
           ''DD'' ''FULLSET'' = Inr ds
        \<and> data_vars ds = example_vars"
  unfolding annotate_def example_names example_world_sel example_loop
  by (simp add: Let_def set_item_def set_attrs_def example_site_def example_vars_def)

lemma example_write:
  "write_netcdf (example_world es) ds ''AT-Neu'' ''DD''
     = (Inr ds, [Mkdir ''netcdf'', ToNetcdf ''netcdf/FLX_AT-Neu_DD.nc''])"
  by (simp add: write_netcdf_def and_then_def example_world_sel)

lemma example_run:
  "\<exists>ds. flux2netcdf (example_world [example_dir]) ''data/'' ''AT-Neu'' ''DD'' ''FULLSET''
          = (Inr ds, example_trace)
        \<and> data_vars ds = example_vars"
proof -
  let ?w = "example_world [example_dir]"
  from example_annotate [of "[example_dir]"] obtain ds where
    a: "annotate ?w (to_xarray example_filtered) example_site ''data/'' ''AT-Neu'' ''DD'' ''FULLSET''
          = Inr ds"
    and d: "data_vars ds = example_vars"
    by blast
  have s5: "and_then (pure_step (annotate ?w (to_xarray example_filtered) example_site ''data/''
                ''AT-Neu'' ''DD'' ''FULLSET''))
              (\<lambda>ds. write_netcdf ?w ds ''AT-Neu'' ''DD'')
            = (Inr ds, [Mkdir ''netcdf'', ToNetcdf ''netcdf/FLX_AT-Neu_DD.nc''])"
    by (simp add: a pure_step_def and_then_def example_write)
  have s4: "and_then (filter_output ?w example_indexed) (\<lambda>df.
              and_then (pure_step (annotate ?w (to_xarray df) example_site ''data/''
                ''AT-Neu'' ''DD'' ''FULLSET''))
              (\<lambda>ds. write_netcdf ?w ds ''AT-Neu'' ''DD''))
            = (Inr ds, [ReadCsv ''doc/variable_groups.csv'', ReadCsv ''output_variables.csv'',
                        Mkdir ''netcdf'', ToNetcdf ''netcdf/FLX_AT-Neu_DD.nc''])"
    unfolding example_filter by (rule and_then_two) (rule s5)
  have ts: "pure_step (time_axis ?w example_df ''DD'') = (Inr example_indexed, [])"
    by (simp add: example_time_axis pure_step_def)
  have s3: "and_then (pure_step (time_axis ?w example_df ''DD'')) (\<lambda>df.
              and_then (filter_output ?w df) (\<lambda>df.
              and_then (pure_step (annotate ?w (to_xarray df) example_site ''data/''
                ''AT-Neu'' ''DD'' ''FULLSET''))
              (\<lambda>ds. write_netcdf ?w ds ''AT-Neu'' ''DD'')))
            = (Inr ds, [ReadCsv ''doc/variable_groups.csv'', ReadCsv ''output_variables.csv'',
                        Mkdir ''netcdf'', ToNetcdf ''netcdf/FLX_AT-Neu_DD.nc''])"
    unfolding ts
    by (rule and_then_nil) (rule s4)
  have s2: "and_then (load_station ?w ''data/'' (example_dir @ ''/'' @ example_file) ''AT-Neu'')
              (\<lambda>(df, metadata).
              and_then (pure_step (time_axis ?w df ''DD'')) (\<lambda>df.
              and_then (filter_output ?w df) (\<lambda>df.
              and_then (pure_step (annotate ?w (to_xarray df) metadata ''data/''
                ''AT-Neu'' ''DD'' ''FULLSET''))
              (\<lambda>ds. write_netcdf ?w ds ''AT-Neu'' ''DD''))))
            = (Inr ds, [ReadCsv (''data/'' @ example_dir @ ''/'' @ example_file),
                        ReadCsv ''doc/variable_groups.csv'', ReadCsv ''output_variables.csv'',
                        Mkdir ''netcdf'', ToNetcdf ''netcdf/FLX_AT-Neu_DD.nc''])"
    unfolding example_load
    by (rule and_then_one) (simp only: prod.case s3)
  have s1: "and_then (find_flux_file ?w ''data/'' ''AT-Neu'' ''DD'' ''FULLSET'') (\<lambda>fname.
              and_then (load_station ?w ''data/'' fname ''AT-Neu'')
              (\<lambda>(df, metadata).
              and_then (pure_step (time_axis ?w df ''DD'')) (\<lambda>df.
              and_then (filter_output ?w df) (\<lambda>df.
              and_then (pure_step (annotate ?w (to_xarray df) metadata ''data/''
                ''AT-Neu'' ''DD'' ''FULLSET''))
              (\<lambda>ds. write_netcdf ?w ds ''AT-Neu'' ''DD'')))))
            = (Inr ds, example_trace)"
    unfolding example_find example_trace_def
    by (rule and_then_two) (rule s2)
  have "flux2netcdf ?w ''data/'' ''AT-Neu'' ''DD'' ''FULLSET'' = (Inr ds, example_trace)"
    unfolding flux2netcdf_def using s1 by simp
  with d show ?thesis by blast
qed

section \<open>filter_output: the columns kept\<close>

text \<open>
  C5: when the two policy files can be read, \<open>filter_output\<close> returns a table whose
  columns are the input's columns that are among the allowed variables, in the input's
  order: the set of its columns is the intersection of the table's columns with the
  allowed variables, and so a subset of the input's columns. Columns that are not allowed
  are dropped without an error, an allowed variable that the table lacks adds nothing.
\<close>

theorem filter_output_intersection:
  assumes "variable_groups_csv w = Inr vg" and "output_variables_csv w = Inr flags"
  shows "\<exists>df'. fst (filter_output w df) = Inr df'
           \<and> columns df' = filter (\<lambda>c. c \<in> set (allowed_variables w vg flags (columns df))) (columns df)
           \<and> set (columns df') = set (columns df) \<inter> set (allowed_variables w vg flags (columns df))
           \<and> set (columns df') \<subseteq> set (columns df)"
proof -
  let ?allowed = "allowed_variables w vg flags (columns df)"
  let ?df' = "drop_ignore df (columns_difference (columns df) ?allowed)"
  have run: "fst (filter_output w df) = Inr ?df'"
    using assms by (simp add: filter_output_reads)
  have cols: "columns ?df' = filter (\<lambda>c. c \<in> set ?allowed) (columns df)"
    by (simp add: columns_drop_ignore set_columns_difference cong: filter_cong)
  have "set (columns ?df') = set (columns df) \<inter> set ?allowed"
    unfolding cols by auto
  with run cols show ?thesis by auto
qed

theorem filter_output_intersection_witness:
  "\<exists>df'. fst (filter_output (example_world []) example_indexed) = Inr df'
         \<and> columns df' = [''TA_F_MDS'', ''TS_F_MDS_1'', ''NEE_CUT_50'']"
proof -
  have "\<exists>df'. fst (filter_output (example_world []) example_indexed) = Inr df'
          \<and> columns df' = [''TA_F_MDS'', ''TS_F_MDS_1'', ''NEE_CUT_50'']
          \<and> set (columns df') =
              set (columns example_indexed) \<inter> {''TA_F_MDS'', ''TS_F_MDS_#'', ''NEE_CUT_50'', ''TS_F_MDS_1''}
          \<and> set (columns df') \<subseteq> set (columns example_indexed)"
    using filter_output_intersection [of "example_world []" example_groups example_flags
        example_indexed]
    by (simp add: example_world_sel example_allowed) (simp add: example_columns)
  then show ?thesis by blast
qed

text \<open>
  C4: when no row of the flag table enables the group \<^verbatim>\<open>QUALITY FLAGS\<close>, no allowed
  variable contains \<^verbatim>\<open>QC\<close>, whether it came from an enabled group or from the
  expansion of a numbered variable, and the table that \<open>filter_output\<close> returns has no
  such column.
\<close>

theorem quality_flags_excluded:
  assumes "''QUALITY FLAGS'' \<notin> set (output_groups_of flags)"
  shows "(\<forall>v\<in>set (allowed_variables w vg flags cols). \<not> str_contains ''QC'' v)
       \<and> (variable_groups_csv w = Inr vg \<longrightarrow> output_variables_csv w = Inr flags \<longrightarrow>
            (\<exists>df'. fst (filter_output w df) = Inr df'
                 \<and> (\<forall>c\<in>set (columns df'). \<not> str_contains ''QC'' c)))"
proof (intro conjI impI)
  show "\<forall>v\<in>set (allowed_variables w vg flags cols). \<not> str_contains ''QC'' v"
    using assms by (rule allowed_no_QC)
next
  assume r: "variable_groups_csv w = Inr vg" "output_variables_csv w = Inr flags"
  let ?allowed = "allowed_variables w vg flags (columns df)"
  let ?df' = "drop_ignore df (columns_difference (columns df) ?allowed)"
  have "fst (filter_output w df) = Inr ?df'"
    using r by (simp add: filter_output_reads)
  moreover have "\<forall>c\<in>set (columns ?df'). \<not> str_contains ''QC'' c"
    using allowed_no_QC [OF assms, of w vg "columns df"]
    by (auto simp: columns_drop_ignore set_columns_difference)
  ultimately show "\<exists>df'. fst (filter_output w df) = Inr df'
      \<and> (\<forall>c\<in>set (columns df'). \<not> str_contains ''QC'' c)"
    by blast
qed

theorem quality_flags_excluded_witness:
  "''QUALITY FLAGS'' \<notin> set (output_groups_of example_flags)
   \<and> ''TS_F_MDS_1_QC'' \<in> set (numbered_variables_of (example_world [])
         (map vg_Variable example_groups) (columns example_indexed))
   \<and> list_all (\<lambda>v. \<not> str_contains ''QC'' v)
         (allowed_variables (example_world []) example_groups example_flags
            (columns example_indexed))"
proof -
  have a: "''QUALITY FLAGS'' \<notin> set (output_groups_of example_flags)"
    by (simp add: example_output_groups)
  have b: "''TS_F_MDS_1_QC'' \<in> set (numbered_variables_of (example_world [])
             (map vg_Variable example_groups) (columns example_indexed))"
    by (simp add: example_groups_def example_columns numbered_variables_of_def
        example_world_sel replace_hash_def)
  from quality_flags_excluded [OF a, of "example_world []" example_groups
      "columns example_indexed" example_indexed] a b
  show ?thesis by (simp add: list_all_iff)
qed

section \<open>The unit of a variable\<close>




text \<open>
  C9: the lookup reads exactly the three rows after the variable's row. The first of them
  that is named by the requested aggregation gives the unit, be it the first, the second
  or the third row after the variable's; when none of the three is named by it, the unit
  is the empty string, whatever the rows further down are; and replacing the rows after
  the third by any other rows does not change the result.
\<close>

theorem unit_lookup_three_rows:
  assumes "first_index lg v = Some i" and "Units (lg ! i) = NaN"
  shows "(\<forall>k. 1 \<le> k \<and> k \<le> 3 \<and> i + k < length lg \<and> Variable (lg ! (i + k)) = temporal_agg
             \<and> (\<forall>m. 1 \<le> m \<and> m < k \<longrightarrow> Variable (lg ! (i + m)) \<noteq> temporal_agg)
           \<longrightarrow> resolve_unit lg temporal_agg v = Inr (Units (lg ! (i + k))))
       \<and> ((\<forall>k. 1 \<le> k \<and> k \<le> 3 \<and> i + k < length lg \<longrightarrow> Variable (lg ! (i + k)) \<noteq> temporal_agg)
           \<longrightarrow> resolve_unit lg temporal_agg v = Inr (StrCell ''''))
       \<and> (i + 4 \<le> length lg \<longrightarrow>
            (\<forall>rest. resolve_unit (take (i + 4) lg @ rest) temporal_agg v
                      = resolve_unit lg temporal_agg v))"
proof (intro conjI impI allI)
  fix k
  assume k: "1 \<le> k \<and> k \<le> 3 \<and> i + k < length lg \<and> Variable (lg ! (i + k)) = temporal_agg
             \<and> (\<forall>m. 1 \<le> m \<and> m < k \<longrightarrow> Variable (lg ! (i + m)) \<noteq> temporal_agg)"
  let ?block = "unit_block_of lg i"
  from k have at: "k - 1 < length ?block" "?block ! (k - 1) = lg ! (i + k)"
    using unit_block_nth [of k i lg] by auto
  have before: "\<forall>m<k - 1. \<not> Variable (?block ! m) = temporal_agg"
  proof (intro allI impI)
    fix m
    assume m: "m < k - 1"
    with k have "1 \<le> m + 1" "m + 1 \<le> 3" "i + (m + 1) < length lg"
      by auto
    from unit_block_nth [OF this] have "?block ! m = lg ! (i + (m + 1))"
      by simp
    moreover have "Variable (lg ! (i + (m + 1))) \<noteq> temporal_agg"
    proof -
      from k have q: "\<forall>m. 1 \<le> m \<and> m < k \<longrightarrow> Variable (lg ! (i + m)) \<noteq> temporal_agg"
        by blast
      from m have "1 \<le> m + 1 \<and> m + 1 < k"
        by auto
      with q show ?thesis by blast
    qed
    ultimately show "\<not> Variable (?block ! m) = temporal_agg"
      by simp
  qed
  from k at have "Variable (?block ! (k - 1)) = temporal_agg"
    by simp
  from filter_first [of "k - 1" ?block "\<lambda>r. Variable r = temporal_agg", OF at(1) this before]
  obtain rest where "filter (\<lambda>r. Variable r = temporal_agg) ?block = ?block ! (k - 1) # rest"
    by blast
  then show "resolve_unit lg temporal_agg v = Inr (Units (lg ! (i + k)))"
    using assms at by (simp add: resolve_unit_block)
next
  assume none: "\<forall>k. 1 \<le> k \<and> k \<le> 3 \<and> i + k < length lg \<longrightarrow> Variable (lg ! (i + k)) \<noteq> temporal_agg"
  have "Variable r \<noteq> temporal_agg" if "r \<in> set (unit_block_of lg i)" for r
  proof -
    from unit_block_rows [OF that] obtain j where
      j: "i < j" "j \<le> i + 3" "j < length lg" "r = lg ! j"
      by blast
    then have "1 \<le> j - i \<and> j - i \<le> 3 \<and> i + (j - i) < length lg"
      by auto
    with none have "Variable (lg ! (i + (j - i))) \<noteq> temporal_agg"
      by blast
    with j show ?thesis by simp
  qed
  then have "filter (\<lambda>r. Variable r = temporal_agg) (unit_block_of lg i) = []"
    by (simp add: filter_empty_conv)
  then show "resolve_unit lg temporal_agg v = Inr (StrCell '''')"
    using assms by (simp add: resolve_unit_block)
next
  fix rest
  assume len: "i + 4 \<le> length lg"
  let ?lg = "take (i + 4) lg @ rest"
  have fi: "first_index ?lg v = Some i"
    using assms(1) by (simp add: first_index_take first_index_append)
  have row: "?lg ! i = lg ! i"
    using len by (simp add: nth_append)
  have "drop (i + 1) ?lg = take 3 (drop (i + 1) lg) @ rest"
    using len by (simp add: drop_take)
  moreover have "length (take 3 (drop (i + 1) lg)) = 3"
    using len by simp
  ultimately have block: "unit_block_of ?lg i = unit_block_of lg i"
    unfolding unit_block_of_def by simp
  from assms(2) row have un: "Units (?lg ! i) = NaN"
    by simp
  show "resolve_unit ?lg temporal_agg v = resolve_unit lg temporal_agg v"
    unfolding resolve_unit_block [OF fi un] resolve_unit_block [OF assms] block ..
qed

theorem unit_lookup_three_rows_witness:
  "first_index example_legend ''NEE_CUT_XX'' = Some 3
   \<and> map Variable example_legend
       = [''TA_F_MDS'', ''HH'', ''DD'', ''NEE_CUT_XX'', ''HH'', ''DD'', ''WW'', ''MM'', ''YY'',
          ''TS_F_MDS_#'']
   \<and> resolve_unit example_legend ''HH'' ''NEE_CUT_XX'' = Inr (StrCell ''umolCO2 m-2 s-1'')
   \<and> resolve_unit example_legend ''WW'' ''NEE_CUT_XX'' = Inr (StrCell ''gC m-2 w-1'')
   \<and> Units (example_legend ! 8) = StrCell ''gC m-2 y-1''
   \<and> resolve_unit example_legend ''YY'' ''NEE_CUT_XX'' = Inr (StrCell '''')
   \<and> resolve_unit (take 7 example_legend @ [example_legend ! 8]) ''YY'' ''NEE_CUT_XX''
       = Inr (StrCell '''')"
proof -
  have a: "first_index example_legend ''NEE_CUT_XX'' = Some 3"
    by (simp add: example_legend_def)
  have b: "Units (example_legend ! 3) = NaN"
    by (simp add: example_legend_def)
  have len: "length example_legend = 10"
    by (simp add: example_legend_def)
  have rows: "Variable (example_legend ! 4) = ''HH''" "Variable (example_legend ! 5) = ''DD''"
    "Variable (example_legend ! 6) = ''WW''"
    "Units (example_legend ! 4) = StrCell ''umolCO2 m-2 s-1''"
    "Units (example_legend ! 6) = StrCell ''gC m-2 w-1''"
    by (simp_all add: example_legend_def)
  have y: "Units (example_legend ! 8) = StrCell ''gC m-2 y-1''"
    by (simp add: example_legend_def)
  note inst = unit_lookup_three_rows [OF a b]
  have hh: "resolve_unit example_legend ''HH'' ''NEE_CUT_XX'' = Inr (StrCell ''umolCO2 m-2 s-1'')"
    using inst [of "''HH''", THEN conjunct1, rule_format, of 1] rows len by simp
  have before: "\<forall>m. 1 \<le> m \<and> m < 3 \<longrightarrow> Variable (example_legend ! (3 + m)) \<noteq> ''WW''"
  proof (intro allI impI)
    fix m :: nat
    assume "1 \<le> m \<and> m < 3"
    then have "m = 1 \<or> m = 2" by auto
    then show "Variable (example_legend ! (3 + m)) \<noteq> ''WW''"
      using rows by auto
  qed
  have ww: "resolve_unit example_legend ''WW'' ''NEE_CUT_XX'' = Inr (StrCell ''gC m-2 w-1'')"
    using inst [of "''WW''", THEN conjunct1, rule_format, of 3] rows len before by simp
  have none: "\<forall>k. 1 \<le> k \<and> k \<le> 3 \<and> 3 + k < length example_legend \<longrightarrow>
      Variable (example_legend ! (3 + k)) \<noteq> ''YY''"
  proof (intro allI impI)
    fix k :: nat
    assume "1 \<le> k \<and> k \<le> 3 \<and> 3 + k < length example_legend"
    then have "k = 1 \<or> k = 2 \<or> k = 3" by auto
    then show "Variable (example_legend ! (3 + k)) \<noteq> ''YY''"
      using rows by auto
  qed
  have yy: "resolve_unit example_legend ''YY'' ''NEE_CUT_XX'' = Inr (StrCell '''')"
    using inst [of "''YY''", THEN conjunct2, THEN conjunct1] none by blast
  have "resolve_unit (take (3 + 4) example_legend @ [example_legend ! 8]) ''YY'' ''NEE_CUT_XX''
      = resolve_unit example_legend ''YY'' ''NEE_CUT_XX''"
    using inst [of "''YY''", THEN conjunct2, THEN conjunct2] len by simp
  with yy have moved: "resolve_unit (take 7 example_legend @ [example_legend ! 8]) ''YY''
      ''NEE_CUT_XX'' = Inr (StrCell '''')"
    by simp
  show ?thesis
    by (intro conjI a example_legend_names hh ww y yy moved)
qed

section \<open>The canonical name of a column\<close>

text \<open>
  C2, as the code has it: a column name \<open>base_CUT_\<close> followed by exactly two digits that
  the legend does not list is rewritten to \<open>base_CUT_XX\<close>, whatever the two digits are,
  so two such replicates of one base get the same canonical name, and with it the same
  description and unit.
\<close>

theorem cut_rewrite_two_digits:
  assumes "isdigit_char d1" and "isdigit_char d2" and "isdigit_char e1" and "isdigit_char e2"
    and "base @ ''_CUT_'' @ [d1, d2] \<notin> set (map Variable lg)"
    and "base @ ''_CUT_'' @ [e1, e2] \<notin> set (map Variable lg)"
  shows "resolve_name lg (base @ ''_CUT_'' @ [d1, d2]) v = Inr (Some (base @ ''_CUT_XX''))
       \<and> resolve_name lg (base @ ''_CUT_'' @ [e1, e2]) v' = Inr (Some (base @ ''_CUT_XX''))"
proof -
  have one: "resolve_name lg (base @ ''_CUT_'' @ [c1, c2]) u = Inr (Some (base @ ''_CUT_XX''))"
    if dig: "isdigit_char c1" "isdigit_char c2"
      and new: "base @ ''_CUT_'' @ [c1, c2] \<notin> set (map Variable lg)"
    for c1 c2 u
  proof -
    let ?variable = "base @ ''_CUT_'' @ [c1, c2]"
    have sp: "split_on CHR ''_'' ?variable = split_on CHR ''_'' base @ [''CUT'', [c1, c2]]"
      using dig by (rule split_on_cut)
    have a: "py_index (split_on CHR ''_'' ?variable) (- 2) = Inr ''CUT''"
      unfolding sp by (rule py_index_minus2)
    have "isdigit [c1, c2]"
      using dig by (simp add: isdigit_def)
    then have b: "isdigit (last (split_on CHR ''_'' ?variable))"
      unfolding sp by simp
    have "resolve_name lg ?variable u
            = Inr (Some (take (length ?variable - 2) ?variable @ ''XX''))"
      using new a b by (rule resolve_name_rewrite)
    then show ?thesis by simp
  qed
  from one [OF assms(1,2,5)] one [OF assms(3,4,6)] show ?thesis
    by blast
qed

theorem cut_rewrite_two_digits_witness:
  "resolve_name example_legend ''NEE_CUT_50'' None = Inr (Some ''NEE_CUT_XX'')
   \<and> resolve_name example_legend ''NEE_CUT_75'' None = Inr (Some ''NEE_CUT_XX'')"
  using cut_rewrite_two_digits [of "CHR ''5''" "CHR ''0''" "CHR ''7''" "CHR ''5''" "''NEE''"
      example_legend None None]
  by (simp add: isdigit_char_def example_legend_names)

text \<open>
  With one digit or three the rewrite cuts two characters all the same: the name it
  builds is not \<open>base_CUT_XX\<close>, and the lookup of that name in the legend fails.
\<close>

theorem cut_rewrite_counterexample:
  "resolve_name example_legend ''NEE_CUT_5'' None = Inr (Some ''NEE_CUTXX'')
   \<and> resolve_name example_legend ''NEE_CUT_5'' None \<noteq> Inr (Some ''NEE_CUT_XX'')
   \<and> resolve_name example_legend ''NEE_CUT_100'' None = Inr (Some ''NEE_CUT_1XX'')
   \<and> variable_attrs example_legend ''DD'' (Some ''NEE_CUTXX'') = Inl (Builtin IndexError)
   \<and> variable_attrs example_legend ''DD'' (Some ''NEE_CUT_1XX'') = Inl (Builtin IndexError)"
  by (simp add: resolve_name_def example_legend_names py_index_def isdigit_def isdigit_char_def
      variable_attrs_def resolve_unit_def example_legend_def)

section \<open>check_date_format\<close>

text \<open>
  C10: for a table whose time column has a first entry, the format depends on the length of
  the entry's text alone: 4, 8 and 12 characters give the formats of a year, a day and a
  minute, and any other length raises UnboundLocalError, since no branch assigned
  \<open>date_format\<close>; there is no fallback format.
\<close>

theorem check_date_format_widths:
  assumes "map_of (df_columns dframe) time_col_name = Some (c # cs)"
  shows "(length (str_cell w c) = 4 \<longrightarrow> check_date_format w dframe time_col_name = Inr ''%Y'')
       \<and> (length (str_cell w c) = 8 \<longrightarrow> check_date_format w dframe time_col_name = Inr ''%Y%m%d'')
       \<and> (length (str_cell w c) = 12 \<longrightarrow>
            check_date_format w dframe time_col_name = Inr ''%Y%m%d%H%M'')
       \<and> (length (str_cell w c) \<notin> {4, 8, 12} \<longrightarrow>
            check_date_format w dframe time_col_name = Inl (Builtin UnboundLocalError))"
  using assms by (simp add: check_date_format_def)

theorem check_date_format_widths_witness:
  "check_date_format (example_world []) example_df ''TIMESTAMP'' = Inr ''%Y%m%d''
   \<and> check_date_format (example_world [])
        \<lparr>df_index = None, df_columns = [(''TIMESTAMP'', [IntCell 200201])]\<rparr> ''TIMESTAMP''
       = Inl (Builtin UnboundLocalError)"
  using check_date_format_widths [of example_df "''TIMESTAMP''" "IntCell 20020101"
      "[IntCell 20020102]" "example_world []"]
    check_date_format_widths [of "\<lparr>df_index = None, df_columns = [(''TIMESTAMP'', [IntCell 200201])]\<rparr>"
      "''TIMESTAMP''" "IntCell 200201" "[]" "example_world []"]
  by (simp add: example_df_def str_cell_def str_int_ex1 str_int_ex4)

section \<open>find_flux_file\<close>

text \<open>
  C7: with no directory for the site, and with two, \<open>find_flux_file\<close> returns no path;
  what it raises is the TypeError of instantiating \<^verbatim>\<open>SiteCodeError\<close> without its
  argument, not a SiteCodeError.
\<close>

theorem find_flux_file_raises_TypeError:
  "find_flux_file (example_world []) ''data/'' ''AT-Neu'' ''DD'' ''FULLSET''
     = (Inl (Builtin TypeError), [Listdir ''data/''])
   \<and> find_flux_file (example_world [example_dir, ''FLX_AT-Neu_copy'']) ''data/'' ''AT-Neu'' ''DD''
        ''FULLSET''
     = (Inl (Builtin TypeError), [Listdir ''data/''])"
  by (simp add: find_flux_file_def example_world_sel example_dir_def and_then_def lift_exc_def)

section \<open>flux2netcdf: the aggregation code\<close>

text \<open>
  C6: \<open>flux2netcdf\<close> raises TemporalResolutionError exactly when the aggregation code is
  none of \<^verbatim>\<open>HH\<close>, \<^verbatim>\<open>DD\<close>, \<^verbatim>\<open>WW\<close>, \<^verbatim>\<open>YY\<close>; it then carries that code, nothing has
  been listed, searched or read, and no dataset is produced.
\<close>

theorem temporal_resolution_error_iff:
  "((\<exists>x. fst (flux2netcdf w path site temporal_agg settype) = Inl (TemporalResolutionError x))
      = (temporal_agg \<notin> set [''HH'', ''DD'', ''WW'', ''YY'']))
   \<and> (temporal_agg \<notin> set [''HH'', ''DD'', ''WW'', ''YY''] \<longrightarrow>
        flux2netcdf w path site temporal_agg settype
          = (Inl (TemporalResolutionError temporal_agg), []))"
proof (cases "temporal_agg \<in> set [''HH'', ''DD'', ''WW'', ''YY'']")
  case True
  have "fst (flux2netcdf w path site temporal_agg settype) \<noteq> Inl (TemporalResolutionError x)" for x
    using conversion_Inl [OF True, of w path site settype "TemporalResolutionError x"] by auto
  with True show ?thesis by simp
next
  case False
  then have "flux2netcdf w path site temporal_agg settype
      = (Inl (TemporalResolutionError temporal_agg), [])"
    by (simp add: flux2netcdf_def)
  with False show ?thesis by simp
qed

theorem temporal_resolution_error_iff_witness:
  "flux2netcdf (example_world [example_dir]) ''data/'' ''AT-Neu'' ''MM'' ''FULLSET''
     = (Inl (TemporalResolutionError ''MM''), [])
   \<and> \<not> (\<exists>x. fst (flux2netcdf (example_world [example_dir]) ''data/'' ''AT-Neu'' ''DD'' ''FULLSET'')
            = Inl (TemporalResolutionError x))"
  using temporal_resolution_error_iff [of "example_world [example_dir]" "''data/''" "''AT-Neu''"
      "''MM''" "''FULLSET''"]
    temporal_resolution_error_iff [of "example_world [example_dir]" "''data/''" "''AT-Neu''"
      "''DD''" "''FULLSET''"]
  by simp

section \<open>flux2netcdf: the attributes of the output\<close>

text \<open>
  C8: in the dataset that a conversion writes, every data variable other than the two
  scalars \<^verbatim>\<open>lon\<close> and \<^verbatim>\<open>lat\<close> has attributes with the fill value -9999.0, and
  \<^verbatim>\<open>lon\<close> and \<^verbatim>\<open>lat\<close> have their standard name, long name, unit and the fill value
  \<^verbatim>\<open>False\<close>.
\<close>

theorem output_fill_values:
  assumes "fst (flux2netcdf w path site temporal_agg settype) = Inr ds"
  shows "(\<forall>name\<in>set (map fst (data_vars ds)). name \<notin> {''lon'', ''lat''} \<longrightarrow>
            (\<exists>a. var_attrs ds name = Some a \<and> map_of a ''_FillValue'' = Some (Float (- 9999))))
       \<and> var_attrs ds ''lon'' =
           Some [(''standard_name'', Str ''longitude''), (''long_name'', Str ''longitude coordinate''),
                 (''units'', Str ''degrees_east''), (''_FillValue'', Bool False)]
       \<and> var_attrs ds ''lat'' =
           Some [(''standard_name'', Str ''latitude''), (''long_name'', Str ''latitude coordinate''),
                 (''units'', Str ''degrees_north''), (''_FillValue'', Bool False)]"
proof -
  from conversion_Inr [OF assms] obtain df metadata where
    "annotate w (to_xarray df) metadata path site temporal_agg settype = Inr ds"
    by blast
  from annotate_attrs [OF this] show ?thesis
    by (simp add: lon_attrs_def lat_attrs_def)
qed

theorem output_fill_values_witness:
  "\<exists>ds. fst (flux2netcdf (example_world [example_dir]) ''data/'' ''AT-Neu'' ''DD'' ''FULLSET'') = Inr ds
        \<and> map fst (data_vars ds) = [''TA_F_MDS'', ''TS_F_MDS_1'', ''NEE_CUT_50'', ''lon'', ''lat'']
        \<and> (\<exists>a. var_attrs ds ''NEE_CUT_50'' = Some a
                \<and> map_of a ''_FillValue'' = Some (Float (- 9999)))
        \<and> var_attrs ds ''lon'' =
            Some [(''standard_name'', Str ''longitude''), (''long_name'', Str ''longitude coordinate''),
                  (''units'', Str ''degrees_east''), (''_FillValue'', Bool False)]
        \<and> var_attrs ds ''lat'' =
            Some [(''standard_name'', Str ''latitude''), (''long_name'', Str ''latitude coordinate''),
                  (''units'', Str ''degrees_north''), (''_FillValue'', Bool False)]"
proof -
  from example_run obtain ds where
    r: "flux2netcdf (example_world [example_dir]) ''data/'' ''AT-Neu'' ''DD'' ''FULLSET''
          = (Inr ds, example_trace)"
    and d: "data_vars ds = example_vars"
    by blast
  have run: "fst (flux2netcdf (example_world [example_dir]) ''data/'' ''AT-Neu'' ''DD'' ''FULLSET'')
      = Inr ds"
    by (simp add: r)
  have names: "map fst (data_vars ds) = [''TA_F_MDS'', ''TS_F_MDS_1'', ''NEE_CUT_50'', ''lon'', ''lat'']"
    by (simp add: d example_vars_def)
  from output_fill_values [OF run]
  have rest: "(\<exists>a. var_attrs ds ''NEE_CUT_50'' = Some a
                \<and> map_of a ''_FillValue'' = Some (Float (- 9999)))
        \<and> var_attrs ds ''lon'' =
            Some [(''standard_name'', Str ''longitude''), (''long_name'', Str ''longitude coordinate''),
                  (''units'', Str ''degrees_east''), (''_FillValue'', Bool False)]
        \<and> var_attrs ds ''lat'' =
            Some [(''standard_name'', Str ''latitude''), (''long_name'', Str ''latitude coordinate''),
                  (''units'', Str ''degrees_north''), (''_FillValue'', Bool False)]"
    unfolding names by simp
  show ?thesis
    by (rule exI [of _ ds]) (intro conjI run names rest)
qed

section \<open>flux2netcdf: a column that the legend does not list\<close>

text \<open>
  C1: the column \<^verbatim>\<open>TS_F_MDS_1\<close> is kept by \<open>filter_output\<close> as a replicate of
  \<^verbatim>\<open>TS_F_MDS_#\<close>; the legend does not list it and it is no \<^verbatim>\<open>CUT\<close> name. The loop
  over the data variables has no branch for it: the column stays in the output, with the
  description and unit of the column before it, and when it is the first column the loop
  raises UnboundLocalError; for a column name without an underscore it raises IndexError.
  No column is dropped.
\<close>

theorem unmatched_column_kept:
  "(\<exists>ds. fst (flux2netcdf (example_world [example_dir]) ''data/'' ''AT-Neu'' ''DD'' ''FULLSET'') = Inr ds
        \<and> map fst (data_vars ds) = [''TA_F_MDS'', ''TS_F_MDS_1'', ''NEE_CUT_50'', ''lon'', ''lat'']
        \<and> var_attrs ds ''TS_F_MDS_1'' =
            Some [(''long_name'', Cell (StrCell ''Air temperature'')),
                  (''units'', Cell (StrCell ''deg C'')),
                  (''_FillValue'', Float (- 9999))])
   \<and> ''TS_F_MDS_1'' \<notin> set (map Variable example_legend)
   \<and> annotate (example_world []) (to_xarray (example_table [''TS_F_MDS_1''])) example_site
        ''data/'' ''AT-Neu'' ''DD'' ''FULLSET'' = Inl (Builtin UnboundLocalError)
   \<and> annotate (example_world []) (to_xarray (example_table [''FOO''])) example_site
        ''data/'' ''AT-Neu'' ''DD'' ''FULLSET'' = Inl (Builtin IndexError)"
proof -
  from example_run obtain ds where
    r: "flux2netcdf (example_world [example_dir]) ''data/'' ''AT-Neu'' ''DD'' ''FULLSET''
          = (Inr ds, example_trace)"
    and d: "data_vars ds = example_vars"
    by blast
  have run: "fst (flux2netcdf (example_world [example_dir]) ''data/'' ''AT-Neu'' ''DD'' ''FULLSET'')
      = Inr ds"
    by (simp add: r)
  have names: "map fst (data_vars ds) = [''TA_F_MDS'', ''TS_F_MDS_1'', ''NEE_CUT_50'', ''lon'', ''lat'']"
    by (simp add: d example_vars_def)
  have attrs: "var_attrs ds ''TS_F_MDS_1'' =
            Some [(''long_name'', Cell (StrCell ''Air temperature'')),
                  (''units'', Cell (StrCell ''deg C'')),
                  (''_FillValue'', Float (- 9999))]"
    by (simp add: var_attrs_def d example_vars_def)
  have unlisted: "''TS_F_MDS_1'' \<notin> set (map Variable example_legend)"
    by (simp add: example_legend_names)
  have unbound: "annotate (example_world []) (to_xarray (example_table [''TS_F_MDS_1''])) example_site
        ''data/'' ''AT-Neu'' ''DD'' ''FULLSET'' = Inl (Builtin UnboundLocalError)"
    by (simp add: annotate_def to_xarray_def example_table_def example_world_sel resolve_name_def
        example_legend_names py_index_def variable_attrs_def)
  have index: "annotate (example_world []) (to_xarray (example_table [''FOO''])) example_site
        ''data/'' ''AT-Neu'' ''DD'' ''FULLSET'' = Inl (Builtin IndexError)"
    by (simp add: annotate_def to_xarray_def example_table_def example_world_sel resolve_name_def
        example_legend_names py_index_def)
  have kept: "\<exists>ds. fst (flux2netcdf (example_world [example_dir]) ''data/'' ''AT-Neu'' ''DD''
                      ''FULLSET'') = Inr ds
        \<and> map fst (data_vars ds) = [''TA_F_MDS'', ''TS_F_MDS_1'', ''NEE_CUT_50'', ''lon'', ''lat'']
        \<and> var_attrs ds ''TS_F_MDS_1'' =
            Some [(''long_name'', Cell (StrCell ''Air temperature'')),
                  (''units'', Cell (StrCell ''deg C'')),
                  (''_FillValue'', Float (- 9999))]"
    by (rule exI [of _ ds]) (intro conjI run names attrs)
  show ?thesis
    by (intro conjI kept unlisted unbound index)
qed

end
